theory Spec2Isabelle
  imports Complex_Main
begin

section \<open>Values of the program\<close>

text \<open>
  The client \<^verbatim>\<open>mcp_client.py\<close> exchanges JSON values with a subprocess. A value
  returned by \<^verbatim>\<open>json.loads\<close> is \<^verbatim>\<open>None\<close>, a bool, an int, a float, a str, a list or a
  dict with string keys; a dict is kept as an association list in insertion order and
  read with \<open>map_of\<close>. Python's \<^verbatim>\<open>str\<close> is modelled by \<open>string\<close>, whose characters are
  the code points below 256; the emoji of the printed messages are written out as
  \<^verbatim>\<open>U+xxxx\<close>.
\<close>

datatype pyfloat = Finite rat | PosInf | NegInf | NaN

datatype json =
    JNull
  | JBool bool
  | JInt int
  | JFloat pyfloat
  | JStr string
  | JArr "json list"
  | JObj "(string \<times> json) list"

text \<open>The exceptions that the methods of the client can let escape.\<close>

datatype pyerr = TypeError | AttributeError | KeyError | IndexError

text \<open>Truth value of a JSON value in a Python condition.\<close>

fun truthy :: "json \<Rightarrow> bool" where
  "truthy JNull = False"
| "truthy (JBool b) = b"
| "truthy (JInt i) = (i \<noteq> 0)"
| "truthy (JFloat f) = (f \<noteq> Finite 0)"
| "truthy (JStr s) = (s \<noteq> [])"
| "truthy (JArr xs) = (xs \<noteq> [])"
| "truthy (JObj kvs) = (kvs \<noteq> [])"

subsection \<open>String operations\<close>

text \<open>\<^verbatim>\<open>str.isspace\<close> on the code points below 256.\<close>

definition is_space :: "char \<Rightarrow> bool" where
  "is_space c =
     (let n = (of_char c :: nat)
      in (9 \<le> n \<and> n \<le> 13) \<or> (28 \<le> n \<and> n \<le> 32) \<or> n = 133 \<or> n = 160)"

definition strip :: "string \<Rightarrow> string" where
  "strip s = rev (dropWhile is_space (rev (dropWhile is_space s)))"

fun startswith :: "string \<Rightarrow> string \<Rightarrow> bool" where
  "startswith s [] = True"
| "startswith [] (p # ps) = False"
| "startswith (c # cs) (p # ps) = (c = p \<and> startswith cs ps)"

text \<open>\<^verbatim>\<open>needle in s\<close> for two strings: the substring test.\<close>

fun str_contains :: "string \<Rightarrow> string \<Rightarrow> bool" where
  "str_contains [] needle = (needle = [])"
| "str_contains (c # cs) needle = (startswith (c # cs) needle \<or> str_contains cs needle)"

text \<open>The text before and after the first space, when there is one.\<close>

fun partition_space :: "string \<Rightarrow> (string \<times> string) option" where
  "partition_space [] = None"
| "partition_space (c # cs) =
     (if c = CHR '' '' then Some ([], cs)
      else (case partition_space cs of
              None \<Rightarrow> None
            | Some (a, b) \<Rightarrow> Some (c # a, b)))"

text \<open>\<^verbatim>\<open>s.split(' ', maxsplit)\<close>: at most \<open>maxsplit\<close> cuts, each at a single space.\<close>

fun py_split :: "string \<Rightarrow> nat \<Rightarrow> string list" where
  "py_split s 0 = [s]"
| "py_split s (Suc n) =
     (case partition_space s of
        None \<Rightarrow> [s]
      | Some (a, b) \<Rightarrow> a # py_split b n)"

text \<open>\<^verbatim>\<open>sep.join(xs)\<close>.\<close>

fun py_join :: "string \<Rightarrow> string list \<Rightarrow> string" where
  "py_join sep [] = []"
| "py_join sep [x] = x"
| "py_join sep (x # y # ys) = x @ sep @ py_join sep (y # ys)"

text \<open>\<^verbatim>\<open>xs[i]\<close> on a list, for \<open>i \<ge> 0\<close>.\<close>

definition py_index :: "'a list \<Rightarrow> nat \<Rightarrow> pyerr + 'a" where
  "py_index xs i = (if i < length xs then Inr (xs ! i) else Inl IndexError)"

text \<open>Decimal text of a length, as an f-string prints it.\<close>

fun show_nat :: "nat \<Rightarrow> string" where
  "show_nat n =
     (if n < 10 then [char_of (48 + n)]
      else show_nat (n div 10) @ [char_of (48 + n mod 10)])"

declare show_nat.simps [simp del]

subsection \<open>Operations on JSON values\<close>

text \<open>\<^verbatim>\<open>obj.get(key, default)\<close>: only a dict has the method.\<close>

definition py_get :: "json \<Rightarrow> string \<Rightarrow> json \<Rightarrow> pyerr + json" where
  "py_get obj k dflt =
     (case obj of
        JObj kvs \<Rightarrow> (case map_of kvs k of None \<Rightarrow> Inr dflt | Some v \<Rightarrow> Inr v)
      | _ \<Rightarrow> Inl AttributeError)"

text \<open>\<^verbatim>\<open>obj[key]\<close> with a string key.\<close>

definition py_getitem :: "json \<Rightarrow> string \<Rightarrow> pyerr + json" where
  "py_getitem obj k =
     (case obj of
        JObj kvs \<Rightarrow> (case map_of kvs k of None \<Rightarrow> Inl KeyError | Some v \<Rightarrow> Inr v)
      | _ \<Rightarrow> Inl TypeError)"

text \<open>\<^verbatim>\<open>obj[0]\<close>.\<close>

definition py_getitem0 :: "json \<Rightarrow> pyerr + json" where
  "py_getitem0 obj =
     (case obj of
        JArr xs \<Rightarrow> (case xs of [] \<Rightarrow> Inl IndexError | x # _ \<Rightarrow> Inr x)
      | JStr s \<Rightarrow> (case s of [] \<Rightarrow> Inl IndexError | c # _ \<Rightarrow> Inr (JStr [c]))
      | JObj kvs \<Rightarrow> Inl KeyError
      | _ \<Rightarrow> Inl TypeError)"

text \<open>\<^verbatim>\<open>len(obj)\<close>.\<close>

definition py_len :: "json \<Rightarrow> pyerr + nat" where
  "py_len obj =
     (case obj of
        JArr xs \<Rightarrow> Inr (length xs)
      | JStr s \<Rightarrow> Inr (length s)
      | JObj kvs \<Rightarrow> Inr (length kvs)
      | _ \<Rightarrow> Inl TypeError)"

text \<open>\<^verbatim>\<open>for x in obj\<close>: the elements a loop over the value visits.\<close>

definition py_iter :: "json \<Rightarrow> pyerr + json list" where
  "py_iter obj =
     (case obj of
        JArr xs \<Rightarrow> Inr xs
      | JStr s \<Rightarrow> Inr (map (\<lambda>c. JStr [c]) s)
      | JObj kvs \<Rightarrow> Inr (map (\<lambda>kv. JStr (fst kv)) kvs)
      | _ \<Rightarrow> Inl TypeError)"

text \<open>\<^verbatim>\<open>'result' in obj\<close>.\<close>

definition py_contains_result :: "json \<Rightarrow> pyerr + bool" where
  "py_contains_result obj =
     (case obj of
        JObj kvs \<Rightarrow> Inr (map_of kvs ''result'' \<noteq> None)
      | JArr xs \<Rightarrow> Inr (List.member xs (JStr ''result''))
      | JStr s \<Rightarrow> Inr (str_contains s ''result'')
      | _ \<Rightarrow> Inl TypeError)"

text \<open>Sequencing of a computation that may raise.\<close>

definition and_then :: "pyerr + 'a \<Rightarrow> ('a \<Rightarrow> pyerr + 'b) \<Rightarrow> pyerr + 'b" where
  "and_then r f = (case r of Inl e \<Rightarrow> Inl e | Inr v \<Rightarrow> f v)"

section \<open>The world outside the client\<close>

text \<open>
  What one \<^verbatim>\<open>Popen\<close> followed by \<^verbatim>\<open>communicate\<close> can do: raise
  \<^verbatim>\<open>FileNotFoundError\<close>, raise another exception (with its message), or end with the
  text of the two output streams.
\<close>

datatype proc_outcome =
    FileNotFoundError
  | Raised string
  | Completed string string

text \<open>What \<^verbatim>\<open>json.loads\<close> can do with a text.\<close>

datatype loads_result =
    Parsed json
  | JSONDecodeError string
  | LoadsRaised string

text \<open>
  The environment of a run: \<^verbatim>\<open>os.path.exists\<close>, the subprocess (its outcome for an
  argument vector and the request written to it), \<^verbatim>\<open>json.loads\<close>, and the text that
  an f-string gives for a value that is not a string.
\<close>

record env =
  path_exists :: "string \<Rightarrow> bool"
  subprocess :: "string list \<Rightarrow> json \<Rightarrow> proc_outcome"
  json_loads :: "string \<Rightarrow> loads_result"
  py_repr :: "json \<Rightarrow> string"

text \<open>
  What a run does that can be observed: a line printed on either stream, the prompt of
  \<^verbatim>\<open>input\<close>, one round trip of the transport (argument vector and request), and the
  traceback of an exception nobody caught.
\<close>

datatype event =
    Stdout string
  | Stderr string
  | Prompt string
  | RoundTrip "string list" json
  | Traceback pyerr

definition format_value :: "env \<Rightarrow> json \<Rightarrow> string" where
  "format_value e v = (case v of JStr s \<Rightarrow> s | _ \<Rightarrow> py_repr e v)"

section \<open>The client\<close>

record client =
  mcp_binary_path :: string
  request_id :: int

definition MCPClient :: "string \<Rightarrow> client" where
  "MCPClient path = \<lparr>mcp_binary_path = path, request_id = 0\<rparr>"

definition next_id :: "client \<Rightarrow> int \<times> client" where
  "next_id c = (request_id c + 1, c\<lparr>request_id := request_id c + 1\<rparr>)"

text \<open>\<^verbatim>\<open>params or {}\<close>.\<close>

definition params_or_empty :: "json option \<Rightarrow> json" where
  "params_or_empty params =
     (case params of
        None \<Rightarrow> JObj []
      | Some p \<Rightarrow> if truthy p then p else JObj [])"

definition make_request :: "int \<Rightarrow> string \<Rightarrow> json option \<Rightarrow> json" where
  "make_request rid method params =
     JObj [(''jsonrpc'', JStr ''2.0''),
           (''id'', JInt rid),
           (''method'', JStr method),
           (''params'', params_or_empty params)]"

definition server_argv :: "client \<Rightarrow> string list" where
  "server_argv c = [mcp_binary_path c, ''mcp'', ''--with-examples'']"

definition stderr_warning :: "string \<Rightarrow> event list" where
  "stderr_warning err =
     (if strip err \<noteq> [] then [Stderr (''MCP Server Error: '' @ strip err)] else [])"

definition run_mcp_request ::
  "env \<Rightarrow> client \<Rightarrow> string \<Rightarrow> json option \<Rightarrow> json option \<times> client \<times> event list" where
  "run_mcp_request e c method params =
     (let (rid, c1) = next_id c;
          request = make_request rid method params;
          call = RoundTrip (server_argv c1) request
      in case subprocess e (server_argv c1) request of
           FileNotFoundError \<Rightarrow>
             (None, c1,
              [call,
               Stderr (''MCP binary not found at '' @ mcp_binary_path c1),
               Stderr ''Build the binary with: make build''])
         | Raised msg \<Rightarrow>
             (None, c1, [call, Stderr (''Error running MCP request: '' @ msg)])
         | Completed out err \<Rightarrow>
             if strip out = [] then
               (None, c1, call # stderr_warning err @ [Stderr ''No response from MCP server''])
             else
               (case json_loads e (strip out) of
                  Parsed v \<Rightarrow> (Some v, c1, call # stderr_warning err)
                | JSONDecodeError msg \<Rightarrow>
                    (None, c1,
                     call # stderr_warning err @
                     [Stderr (''Failed to parse JSON response: '' @ msg),
                      Stderr (''Raw response: '' @ out)])
                | LoadsRaised msg \<Rightarrow>
                    (None, c1,
                     call # stderr_warning err @
                     [Stderr (''Error running MCP request: '' @ msg)])))"

section \<open>The intents\<close>

text \<open>\<^verbatim>\<open>response and 'result' in response\<close>.\<close>

definition has_result :: "json option \<Rightarrow> pyerr + bool" where
  "has_result response =
     (case response of
        None \<Rightarrow> Inr False
      | Some v \<Rightarrow> if truthy v then py_contains_result v else Inr False)"

text \<open>\<^verbatim>\<open>response['result']\<close>.\<close>

definition the_result :: "json option \<Rightarrow> pyerr + json" where
  "the_result response =
     (case response of
        None \<Rightarrow> Inl TypeError
      | Some v \<Rightarrow> py_getitem v ''result'')"

definition initialize :: "env \<Rightarrow> client \<Rightarrow> (pyerr + bool) \<times> client \<times> event list" where
  "initialize e c =
     (let (response, c1, ev) = run_mcp_request e c ''initialize'' None;
          pre = Stdout ''Initializing MCP server...'' # ev
      in case has_result response of
           Inl err \<Rightarrow> (Inl err, c1, pre)
         | Inr False \<Rightarrow> (Inr False, c1, pre @ [Stdout ''U+274C Failed to initialize MCP server''])
         | Inr True \<Rightarrow>
             (case and_then (the_result response) (\<lambda>res.
                   and_then (py_get res ''serverInfo'' (JObj [])) (\<lambda>server_info.
                   and_then (py_get server_info ''name'' (JStr ''mongo-essential'')) (\<lambda>name.
                   and_then (py_get server_info ''version'' (JStr ''unknown'')) (\<lambda>version.
                   Inr (''U+2705 Connected to '' @ format_value e name @ '' v'' @
                        format_value e version))))) of
                Inl err \<Rightarrow> (Inl err, c1, pre)
              | Inr line \<Rightarrow> (Inr True, c1, pre @ [Stdout line])))"

text \<open>The loop of \<^verbatim>\<open>list_tools\<close> over the tool descriptors.\<close>

fun print_tools :: "env \<Rightarrow> json list \<Rightarrow> (pyerr + unit) \<times> event list" where
  "print_tools e [] = (Inr (), [])"
| "print_tools e (tool # rest) =
     (case py_getitem tool ''name'' of
        Inl err \<Rightarrow> (Inl err, [])
      | Inr name \<Rightarrow>
          (case py_getitem tool ''description'' of
             Inl err \<Rightarrow> (Inl err, [Stdout (''U+1F527 '' @ format_value e name)])
           | Inr description \<Rightarrow>
               (let (r, ev) = print_tools e rest
                in (r, [Stdout (''U+1F527 '' @ format_value e name),
                        Stdout (''   '' @ format_value e description),
                        Stdout []] @ ev))))"

definition list_tools :: "env \<Rightarrow> client \<Rightarrow> (pyerr + bool) \<times> client \<times> event list" where
  "list_tools e c =
     (let (response, c1, ev) = run_mcp_request e c ''tools/list'' None;
          pre = Stdout ''Listing available tools...'' # ev
      in case has_result response of
           Inl err \<Rightarrow> (Inl err, c1, pre)
         | Inr False \<Rightarrow> (Inr False, c1, pre @ [Stdout ''U+274C Failed to list tools''])
         | Inr True \<Rightarrow>
             (case and_then (the_result response) (\<lambda>res.
                   and_then (py_get res ''tools'' (JArr [])) (\<lambda>tools.
                   and_then (py_len tools) (\<lambda>n.
                   and_then (py_iter tools) (\<lambda>items. Inr (n, items))))) of
                Inl err \<Rightarrow> (Inl err, c1, pre)
              | Inr (n, items) \<Rightarrow>
                  (let head = [Stdout (CHR 0x0A # ''U+1F4CB Available Tools ('' @ show_nat n @ ''):''),
                               Stdout (replicate 50 (CHR ''=''))];
                       (r, ev2) = print_tools e items
                   in case r of
                        Inl err \<Rightarrow> (Inl err, c1, pre @ head @ ev2)
                      | Inr _ \<Rightarrow> (Inr True, c1, pre @ head @ ev2))))"

text \<open>
  The five methods that call a tool end alike: the text of \<^verbatim>\<open>result.content[0]\<close>, or the
  default text, is printed after a newline, and without a usable result the failure
  line is printed. \<open>content_text\<close> is the text to print, when there is one.
\<close>

definition content_text :: "json option \<Rightarrow> string \<Rightarrow> pyerr + string option" where
  "content_text response dflt =
     and_then (has_result response) (\<lambda>ok.
       if \<not> ok then Inr None
       else
         and_then (the_result response) (\<lambda>res.
         and_then (py_get res ''content'' (JArr [])) (\<lambda>content.
           if \<not> truthy content then Inr None
           else
             and_then (py_len content) (\<lambda>n.
               if \<not> 0 < n then Inr None
               else
                 and_then (py_getitem0 content) (\<lambda>block.
                 and_then (py_get block ''text'' (JStr dflt)) (\<lambda>t.
                   case t of
                     JStr s \<Rightarrow> Inr (Some (CHR 0x0A # s))
                   | _ \<Rightarrow> Inl TypeError))))))"

definition show_content ::
  "json option \<Rightarrow> string \<Rightarrow> string \<Rightarrow> (pyerr + bool) \<times> event list" where
  "show_content response dflt failure =
     (case content_text response dflt of
        Inl err \<Rightarrow> (Inl err, [])
      | Inr None \<Rightarrow> (Inr False, [Stdout failure])
      | Inr (Some s) \<Rightarrow> (Inr True, [Stdout s]))"

definition tool_call :: "string \<Rightarrow> json \<Rightarrow> json option" where
  "tool_call name arguments = Some (JObj [(''name'', JStr name), (''arguments'', arguments)])"

definition migration_status :: "env \<Rightarrow> client \<Rightarrow> (pyerr + bool) \<times> client \<times> event list" where
  "migration_status e c =
     (let (response, c1, ev) =
            run_mcp_request e c ''tools/call'' (tool_call ''migration_status'' (JObj []));
          (r, ev2) = show_content response ''No status available''
                       ''U+274C Failed to get migration status''
      in (r, c1, Stdout ''Getting migration status...'' # ev @ ev2))"

text \<open>\<^verbatim>\<open>{"version": version} if version else {}\<close>: no version and the empty one are both false.\<close>

definition version_args :: "string option \<Rightarrow> json" where
  "version_args version =
     (case version of
        None \<Rightarrow> JObj []
      | Some v \<Rightarrow> if v \<noteq> [] then JObj [(''version'', JStr v)] else JObj [])"

definition up_action :: "string option \<Rightarrow> string" where
  "up_action version =
     (case version of
        None \<Rightarrow> ''up (all pending)''
      | Some v \<Rightarrow> if v \<noteq> [] then ''up to version '' @ v else ''up (all pending)'')"

definition migration_up ::
  "env \<Rightarrow> client \<Rightarrow> string option \<Rightarrow> (pyerr + bool) \<times> client \<times> event list" where
  "migration_up e c version =
     (let (response, c1, ev) =
            run_mcp_request e c ''tools/call'' (tool_call ''migration_up'' (version_args version));
          (r, ev2) = show_content response ''Migration completed''
                       ''U+274C Failed to run migrations''
      in (r, c1, Stdout (''Running migrations '' @ up_action version @ ''...'') # ev @ ev2))"

definition down_action :: "string option \<Rightarrow> string" where
  "down_action version =
     (case version of
        None \<Rightarrow> ''down (last migration)''
      | Some v \<Rightarrow> if v \<noteq> [] then ''down to version '' @ v else ''down (last migration)'')"

definition migration_down ::
  "env \<Rightarrow> client \<Rightarrow> string option \<Rightarrow> (pyerr + bool) \<times> client \<times> event list" where
  "migration_down e c version =
     (let (response, c1, ev) =
            run_mcp_request e c ''tools/call'' (tool_call ''migration_down'' (version_args version));
          (r, ev2) = show_content response ''Migration rolled back''
                       ''U+274C Failed to roll back migrations''
      in (r, c1, Stdout (''Rolling back migrations '' @ down_action version @ ''...'') # ev @ ev2))"

definition create_migration ::
  "env \<Rightarrow> client \<Rightarrow> string \<Rightarrow> string \<Rightarrow> (pyerr + bool) \<times> client \<times> event list" where
  "create_migration e c name description =
     (let (response, c1, ev) =
            run_mcp_request e c ''tools/call''
              (tool_call ''migration_create''
                 (JObj [(''name'', JStr name), (''description'', JStr description)]));
          (r, ev2) = show_content response ''Migration created''
                       ''U+274C Failed to create migration''
      in (r, c1, Stdout (''Creating migration: '' @ name) # ev @ ev2))"

definition list_migrations :: "env \<Rightarrow> client \<Rightarrow> (pyerr + bool) \<times> client \<times> event list" where
  "list_migrations e c =
     (let (response, c1, ev) =
            run_mcp_request e c ''tools/call'' (tool_call ''migration_list'' (JObj []));
          (r, ev2) = show_content response ''No migrations found''
                       ''U+274C Failed to list migrations''
      in (r, c1, Stdout ''Listing registered migrations...'' # ev @ ev2))"

section \<open>Interactive mode\<close>

definition goodbye :: string where
  "goodbye = ''Goodbye! U+1F44B''"

definition usage_create :: string where
  "usage_create = ''Usage: create <name> <description>''"

text \<open>The text of \<^verbatim>\<open>_print_help\<close>, one line per element.\<close>

definition help_lines :: "string list" where
  "help_lines =
     ['''',
      ''Available commands:'',
      ''  help                     - Show this help'',
      ''  tools                    - List available MCP tools'',
      ''  status                   - Get migration status'',
      ''  up [version]             - Apply migrations (optionally up to version)'',
      ''  down [version]           - Roll back migrations (optionally to version)'',
      ''  create <name> <desc>     - Create a new migration'',
      ''  list                     - List all registered migrations'',
      ''  quit/exit/q              - Exit interactive mode'',
      '''',
      ''Examples:'',
      ''  status                   - Check what migrations are applied'',
      ''  up                       - Apply all pending migrations'',
      ''  up 20240101_001          - Apply migrations up to specific version'',
      ''  down                     - Roll back the last applied migration'',
      ''  create add_index '' @ [CHR 0x22] @ ''Add user email index'' @ [CHR 0x22] @
        '' - Create a new migration'',
      '''']"

definition print_help :: "event list" where
  "print_help = [Stdout (py_join [CHR 0x0A] help_lines)]"

text \<open>How one pass through the body of the loop ends.\<close>

datatype loop_ctl = Break | Next

text \<open>A command that ran a method: the blank line after it, unless the method raised.\<close>

definition after_command ::
  "(pyerr + bool) \<times> client \<times> event list \<Rightarrow> (pyerr + loop_ctl) \<times> client \<times> event list" where
  "after_command res =
     (case res of
        (Inl err, c1, ev) \<Rightarrow> (Inl err, c1, ev)
      | (Inr _, c1, ev) \<Rightarrow> (Inr Next, c1, ev @ [Stdout []]))"

text \<open>The body of the loop of \<^verbatim>\<open>interactive_mode\<close>, for the line that \<^verbatim>\<open>input\<close> returned.\<close>

definition loop_body ::
  "env \<Rightarrow> client \<Rightarrow> string \<Rightarrow> (pyerr + loop_ctl) \<times> client \<times> event list" where
  "loop_body e c line =
     (let command = strip line
      in if command \<in> set [''quit'', ''exit'', ''q''] then (Inr Break, c, [Stdout goodbye])
         else if command \<in> set [''help'', ''h''] then (Inr Next, c, print_help @ [Stdout []])
         else if command = ''tools'' then after_command (list_tools e c)
         else if command = ''status'' then after_command (migration_status e c)
         else if command = ''up'' then after_command (migration_up e c None)
         else if startswith command ''up '' then
           (case py_index (py_split command 1) 1 of
              Inl err \<Rightarrow> (Inl err, c, [])
            | Inr version \<Rightarrow> after_command (migration_up e c (Some version)))
         else if command = ''down'' then after_command (migration_down e c None)
         else if startswith command ''down '' then
           (case py_index (py_split command 1) 1 of
              Inl err \<Rightarrow> (Inl err, c, [])
            | Inr version \<Rightarrow> after_command (migration_down e c (Some version)))
         else if startswith command ''create '' then
           (let parts = py_split command 2
            in if length parts < 3 then (Inr Next, c, [Stdout usage_create, Stdout []])
               else
                 (let name_desc = py_split (parts ! 2) 1
                  in if length name_desc < 2 then
                       (Inr Next, c, [Stdout usage_create, Stdout []])
                     else after_command (create_migration e c (name_desc ! 0) (name_desc ! 1))))
         else if command = ''list'' then after_command (list_migrations e c)
         else if command = [] then (Inr Next, c, [])
         else
           (Inr Next, c,
            [Stdout (''Unknown command: '' @ command @ ''. Type '' @ [CHR 0x27] @ ''help'' @
                     [CHR 0x27] @ '' for available commands.''),
             Stdout []]))"

text \<open>
  What \<^verbatim>\<open>input\<close> does at a prompt: it returns a line, or the operator interrupts. At
  the end of the list the input is at its end, and \<^verbatim>\<open>input\<close> raises \<^verbatim>\<open>EOFError\<close>.
\<close>

datatype input_event = Line string | KeyboardInterrupt

definition farewell :: "event list" where
  "farewell = [Stdout (CHR 0x0A # goodbye)]"

text \<open>The loop; it returns the input it has not read.\<close>

fun interactive_loop ::
  "env \<Rightarrow> client \<Rightarrow> input_event list \<Rightarrow>
   (pyerr + unit) \<times> client \<times> input_event list \<times> event list" where
  "interactive_loop e c [] = (Inr (), c, [], Prompt ''mcp> '' # farewell)"
| "interactive_loop e c (KeyboardInterrupt # rest) =
     (Inr (), c, rest, Prompt ''mcp> '' # farewell)"
| "interactive_loop e c (Line l # rest) =
     (case loop_body e c l of
        (Inl err, c1, ev) \<Rightarrow> (Inl err, c1, rest, Prompt ''mcp> '' # ev)
      | (Inr Break, c1, ev) \<Rightarrow> (Inr (), c1, rest, Prompt ''mcp> '' # ev)
      | (Inr Next, c1, ev) \<Rightarrow>
          (let (r, c2, rest2, ev2) = interactive_loop e c1 rest
           in (r, c2, rest2, Prompt ''mcp> '' # ev @ ev2)))"

definition banner :: "event list" where
  "banner =
     [Stdout ''U+1F680 MongoDB Migration MCP Client - Interactive Mode'',
      Stdout (''Type '' @ [CHR 0x27] @ ''help'' @ [CHR 0x27] @ '' for available commands, '' @
              [CHR 0x27] @ ''quit'' @ [CHR 0x27] @ '' to exit''),
      Stdout []]"

definition interactive_mode ::
  "env \<Rightarrow> client \<Rightarrow> input_event list \<Rightarrow>
   (pyerr + unit) \<times> client \<times> input_event list \<times> event list" where
  "interactive_mode e c inp =
     (case initialize e c of
        (Inl err, c1, ev) \<Rightarrow> (Inl err, c1, inp, banner @ ev)
      | (Inr False, c1, ev) \<Rightarrow> (Inr (), c1, inp, banner @ ev)
      | (Inr True, c1, ev) \<Rightarrow>
          (let (r, c2, rest, ev2) = interactive_loop e c1 inp
           in (r, c2, rest, banner @ ev @ ev2)))"

section \<open>The program\<close>

text \<open>The command that \<^verbatim>\<open>argparse\<close> accepts: one of its \<^verbatim>\<open>choices\<close>, or none.\<close>

datatype command = Init | Tools | Status | Up | Down | Create | List | Interactive

text \<open>How a call of \<^verbatim>\<open>main\<close> ends: it returns, \<^verbatim>\<open>sys.exit\<close> is called, or an exception escapes.\<close>

datatype main_end = Returned | SysExit int | Uncaught pyerr

text \<open>\<^verbatim>\<open>sys.exit(0 if success else 1)\<close> after the method of a one-shot command.\<close>

definition exit_with ::
  "(pyerr + bool) \<times> client \<times> event list \<Rightarrow> main_end \<times> event list" where
  "exit_with res =
     (case res of
        (Inl err, _, ev) \<Rightarrow> (Uncaught err, ev)
      | (Inr success, _, ev) \<Rightarrow> (SysExit (if success then 0 else 1), ev))"

text \<open>The chain of \<^verbatim>\<open>if\<close>/\<^verbatim>\<open>elif\<close> over the command, and the final \<^verbatim>\<open>sys.exit\<close>.\<close>

definition run_command ::
  "env \<Rightarrow> client \<Rightarrow> command \<Rightarrow> string list \<Rightarrow> main_end \<times> event list" where
  "run_command e c cmd args =
     (case cmd of
        Init \<Rightarrow> exit_with (initialize e c)
      | Tools \<Rightarrow> exit_with (list_tools e c)
      | Status \<Rightarrow> exit_with (migration_status e c)
      | Up \<Rightarrow> exit_with (migration_up e c (case args of [] \<Rightarrow> None | v # _ \<Rightarrow> Some v))
      | Down \<Rightarrow> exit_with (migration_down e c (case args of [] \<Rightarrow> None | v # _ \<Rightarrow> Some v))
      | Create \<Rightarrow>
          if length args < 2 then (SysExit 1, [Stdout usage_create])
          else exit_with (create_migration e c (args ! 0) (py_join '' '' (tl args)))
      | List \<Rightarrow> exit_with (list_migrations e c)
      | Interactive \<Rightarrow> (SysExit 1, []))"

definition main ::
  "env \<Rightarrow> string \<Rightarrow> command option \<Rightarrow> string list \<Rightarrow> input_event list \<Rightarrow>
   main_end \<times> input_event list \<times> event list" where
  "main e binary command args inp =
     (if \<not> path_exists e binary then
        (SysExit 1, inp,
         [Stdout (''Error: Binary not found at '' @ binary),
          Stdout ''Build it with: make build''])
      else
        (let client = MCPClient binary
         in if command = None \<or> command = Some Interactive then
              (case interactive_mode e client inp of
                 (Inl err, _, rest, ev) \<Rightarrow> (Uncaught err, rest, ev)
               | (Inr _, _, rest, ev) \<Rightarrow> (Returned, rest, ev))
            else
              (let cmd = the command
               in if cmd \<noteq> Init then
                    (case initialize e client of
                       (Inl err, _, ev) \<Rightarrow> (Uncaught err, inp, ev)
                     | (Inr False, _, ev) \<Rightarrow> (SysExit 1, inp, ev)
                     | (Inr True, c1, ev) \<Rightarrow>
                         (let (r, ev2) = run_command e c1 cmd args in (r, inp, ev @ ev2)))
                  else
                    (let (r, ev2) = run_command e client cmd args in (r, inp, ev2)))))"

text \<open>
  The script ends with the guarded call \<^verbatim>\<open>main()\<close> written twice, so a call of \<^verbatim>\<open>main\<close>
  that returns is followed by a second one, on the input that is left. The second call
  meets the world as it is then, so it has an environment of its own. The exit status
  is the argument of \<^verbatim>\<open>sys.exit\<close>, 1 after an exception nobody caught, and 0 when the
  script runs to its end.
\<close>

definition finish :: "main_end \<Rightarrow> int \<times> event list" where
  "finish r =
     (case r of
        Returned \<Rightarrow> (0, [])
      | SysExit n \<Rightarrow> (n, [])
      | Uncaught err \<Rightarrow> (1, [Traceback err]))"

definition script ::
  "env \<Rightarrow> env \<Rightarrow> string \<Rightarrow> command option \<Rightarrow> string list \<Rightarrow> input_event list \<Rightarrow>
   int \<times> event list" where
  "script e e2 binary command args inp =
     (case main e binary command args inp of
        (Returned, rest, ev) \<Rightarrow>
          (case main e2 binary command args rest of
             (r, _, ev2) \<Rightarrow> (fst (finish r), ev @ ev2 @ snd (finish r)))
      | (r, _, ev) \<Rightarrow> (fst (finish r), ev @ snd (finish r)))"

section \<open>Notions used by the properties\<close>

text \<open>The round trips among the events of a run, in order.\<close>

fun is_round_trip :: "event \<Rightarrow> bool" where
  "is_round_trip (RoundTrip argv request) = True"
| "is_round_trip _ = False"

definition round_trips :: "event list \<Rightarrow> event list" where
  "round_trips evs = filter is_round_trip evs"

text \<open>The \<^verbatim>\<open>id\<close> of the request of a round trip, and the ids of a run, in order.\<close>

fun event_ids :: "event \<Rightarrow> int list" where
  "event_ids (RoundTrip argv (JObj kvs)) =
     (case map_of kvs ''id'' of Some (JInt i) \<Rightarrow> [i] | _ \<Rightarrow> [])"
| "event_ids _ = []"

definition request_ids :: "event list \<Rightarrow> int list" where
  "request_ids evs = concat (map event_ids evs)"

text \<open>A sequence of calls of the transport on one client, each with a method and parameters.\<close>

fun run_requests ::
  "env \<Rightarrow> client \<Rightarrow> (string \<times> json option) list \<Rightarrow> client \<times> event list" where
  "run_requests e c [] = (c, [])"
| "run_requests e c ((method, params) # rest) =
     (let (response, c1, ev) = run_mcp_request e c method params;
          (c2, ev2) = run_requests e c1 rest
      in (c2, ev @ ev2))"

text \<open>
  The seven intents, each with the method of the client that carries it out, the method
  name and parameters it hands to the transport, the line it prints first and the line
  it prints on failure.
\<close>

datatype intent =
    Initialize
  | ListTools
  | GetStatus
  | Apply "string option"
  | Rollback "string option"
  | CreateMigration string string
  | ListMigrations

fun run_intent :: "env \<Rightarrow> client \<Rightarrow> intent \<Rightarrow> (pyerr + bool) \<times> client \<times> event list" where
  "run_intent e c Initialize = initialize e c"
| "run_intent e c ListTools = list_tools e c"
| "run_intent e c GetStatus = migration_status e c"
| "run_intent e c (Apply version) = migration_up e c version"
| "run_intent e c (Rollback version) = migration_down e c version"
| "run_intent e c (CreateMigration name description) = create_migration e c name description"
| "run_intent e c ListMigrations = list_migrations e c"

fun intent_method :: "intent \<Rightarrow> string" where
  "intent_method Initialize = ''initialize''"
| "intent_method ListTools = ''tools/list''"
| "intent_method _ = ''tools/call''"

fun intent_params :: "intent \<Rightarrow> json option" where
  "intent_params Initialize = None"
| "intent_params ListTools = None"
| "intent_params GetStatus = tool_call ''migration_status'' (JObj [])"
| "intent_params (Apply version) = tool_call ''migration_up'' (version_args version)"
| "intent_params (Rollback version) = tool_call ''migration_down'' (version_args version)"
| "intent_params (CreateMigration name description) =
     tool_call ''migration_create''
       (JObj [(''name'', JStr name), (''description'', JStr description)])"
| "intent_params ListMigrations = tool_call ''migration_list'' (JObj [])"

fun intent_announce :: "intent \<Rightarrow> string" where
  "intent_announce Initialize = ''Initializing MCP server...''"
| "intent_announce ListTools = ''Listing available tools...''"
| "intent_announce GetStatus = ''Getting migration status...''"
| "intent_announce (Apply version) = ''Running migrations '' @ up_action version @ ''...''"
| "intent_announce (Rollback version) =
     ''Rolling back migrations '' @ down_action version @ ''...''"
| "intent_announce (CreateMigration name description) = ''Creating migration: '' @ name"
| "intent_announce ListMigrations = ''Listing registered migrations...''"

fun intent_failure :: "intent \<Rightarrow> string" where
  "intent_failure Initialize = ''U+274C Failed to initialize MCP server''"
| "intent_failure ListTools = ''U+274C Failed to list tools''"
| "intent_failure GetStatus = ''U+274C Failed to get migration status''"
| "intent_failure (Apply version) = ''U+274C Failed to run migrations''"
| "intent_failure (Rollback version) = ''U+274C Failed to roll back migrations''"
| "intent_failure (CreateMigration name description) = ''U+274C Failed to create migration''"
| "intent_failure ListMigrations = ''U+274C Failed to list migrations''"

text \<open>
  The intent that a one-shot command asks for: none for \<^verbatim>\<open>create\<close> with fewer than two
  arguments, which only prints the usage line.
\<close>

fun command_intent :: "command \<Rightarrow> string list \<Rightarrow> intent option" where
  "command_intent Init args = Some Initialize"
| "command_intent Tools args = Some ListTools"
| "command_intent Status args = Some GetStatus"
| "command_intent Up args = Some (Apply (case args of [] \<Rightarrow> None | v # _ \<Rightarrow> Some v))"
| "command_intent Down args = Some (Rollback (case args of [] \<Rightarrow> None | v # _ \<Rightarrow> Some v))"
| "command_intent Create args =
     (case args of
        name # word # others \<Rightarrow> Some (CreateMigration name (py_join '' '' (word # others)))
      | _ \<Rightarrow> None)"
| "command_intent List args = Some ListMigrations"
| "command_intent Interactive args = None"

text \<open>
  The requested operation of a one-shot invocation succeeds: the implicit initialize
  call (of every command but \<^verbatim>\<open>init\<close>) returns true, and then the command's intent
  returns true.
\<close>

definition operation_succeeds :: "env \<Rightarrow> string \<Rightarrow> command \<Rightarrow> string list \<Rightarrow> bool" where
  "operation_succeeds e binary cmd args =
     (case command_intent cmd args of
        None \<Rightarrow> False
      | Some i \<Rightarrow>
          if cmd = Init then fst (run_intent e (MCPClient binary) i) = Inr True
          else
            (case initialize e (MCPClient binary) of
               (Inr True, c1, ev) \<Rightarrow> fst (run_intent e c1 i) = Inr True
             | _ \<Rightarrow> False))"

text \<open>An environment where the binary is on disk and cannot be started.\<close>

definition env_unstartable :: env where
  "env_unstartable =
     \<lparr>path_exists = (\<lambda>p. True),
      subprocess = (\<lambda>argv request. FileNotFoundError),
      json_loads = (\<lambda>s. JSONDecodeError ''Expecting value''),
      py_repr = (\<lambda>v. [])\<rparr>"

text \<open>An environment where no binary is on disk.\<close>

definition env_absent :: env where
  "env_absent =
     \<lparr>path_exists = (\<lambda>p. False),
      subprocess = (\<lambda>argv request. FileNotFoundError),
      json_loads = (\<lambda>s. JSONDecodeError ''Expecting value''),
      py_repr = (\<lambda>v. [])\<rparr>"

text \<open>
  An environment whose server answers every request with one line, which parses to the
  given response.
\<close>

definition env_answering :: "json \<Rightarrow> env" where
  "env_answering response =
     \<lparr>path_exists = (\<lambda>p. True),
      subprocess = (\<lambda>argv request. Completed ''{...}'' []),
      json_loads = (\<lambda>s. Parsed response),
      py_repr = (\<lambda>v. [])\<rparr>"

definition text_response :: "string \<Rightarrow> json" where
  "text_response t =
     JObj [(''jsonrpc'', JStr ''2.0''),
           (''result'', JObj [(''content'', JArr [JObj [(''type'', JStr ''text''),
                                                        (''text'', JStr t)]])])]"

definition error_response :: json where
  "error_response =
     JObj [(''jsonrpc'', JStr ''2.0''),
           (''error'', JObj [(''code'', JInt (- 32601)), (''message'', JStr ''Method not found'')])]"

text \<open>
  An environment whose server answers the initialize request with an empty result and
  every other request with an error object.
\<close>

definition env_init_only :: env where
  "env_init_only =
     \<lparr>path_exists = (\<lambda>p. True),
      subprocess = (\<lambda>argv request.
        case request of
          JObj kvs \<Rightarrow>
            if map_of kvs ''method'' = Some (JStr ''initialize'') then Completed ''ok'' []
            else Completed ''error'' []
        | _ \<Rightarrow> Raised ''not a request''),
      json_loads = (\<lambda>s.
        if s = ''ok'' then Parsed (JObj [(''jsonrpc'', JStr ''2.0''), (''result'', JObj [])])
        else Parsed error_response),
      py_repr = (\<lambda>v. [])\<rparr>"

text \<open>
  Interactive mode on a new client returns (no exception escapes it), and the input it
  leaves unread.
\<close>

definition interactive_returns :: "env \<Rightarrow> string \<Rightarrow> input_event list \<Rightarrow> bool" where
  "interactive_returns e binary inp =
     (case fst (interactive_mode e (MCPClient binary) inp) of
        Inl err \<Rightarrow> False
      | Inr u \<Rightarrow> True)"

definition remaining_input :: "env \<Rightarrow> string \<Rightarrow> input_event list \<Rightarrow> input_event list" where
  "remaining_input e binary inp = fst (snd (snd (interactive_mode e (MCPClient binary) inp)))"

text \<open>
  The events of a computation that starts on client \<open>c\<close> and ends on \<open>c'\<close>: the counter
  has moved by the number of round trips, whose ids are the next ones, in order.
\<close>

definition advances :: "client \<Rightarrow> client \<Rightarrow> event list \<Rightarrow> bool" where
  "advances c c' evs =
     (c' = c\<lparr>request_id := request_id c + int (length (round_trips evs))\<rparr>
      \<and> request_ids evs =
          [request_id c + 1 .. request_id c + int (length (round_trips evs))])"

section \<open>Properties of the transport\<close>

lemma round_trips_simps [simp]:
  "round_trips [] = []"
  "round_trips (RoundTrip argv request # evs) = RoundTrip argv request # round_trips evs"
  "round_trips (Stdout s # evs) = round_trips evs"
  "round_trips (Stderr s # evs) = round_trips evs"
  "round_trips (Prompt s # evs) = round_trips evs"
  "round_trips (Traceback err # evs) = round_trips evs"
  "round_trips (evs @ evs') = round_trips evs @ round_trips evs'"
  by (simp_all add: round_trips_def)

lemma round_trips_stderr_warning [simp]: "round_trips (stderr_warning err) = []"
  by (simp add: stderr_warning_def)

lemma server_argv_request_id [simp]: "server_argv (c\<lparr>request_id := n\<rparr>) = server_argv c"
  by (simp add: server_argv_def)

text \<open>
  Whatever the subprocess does, a call of the transport makes one round trip, first of
  all its events, with the next id, and moves the counter by one.
\<close>

lemma run_mcp_request_shape:
  "\<exists>response ev.
     run_mcp_request e c method params =
       (response, c\<lparr>request_id := request_id c + 1\<rparr>,
        RoundTrip (server_argv c) (make_request (request_id c + 1) method params) # ev)
     \<and> round_trips ev = []"
  by (simp add: run_mcp_request_def next_id_def Let_def
           split: proc_outcome.split loads_result.split)

text \<open>
  Claim C8. Every call of the transport, whatever the subprocess and the parser do
  (missing binary, another exception, empty output, parse error, a parsed response),
  leaves a client that differs from the one before in its request id only, which is
  one more; the binary path is the same. The client record has no other field.
\<close>

theorem transport_frame:
  "fst (snd (run_mcp_request e c method params)) = c\<lparr>request_id := request_id c + 1\<rparr>
   \<and> request_id (fst (snd (run_mcp_request e c method params))) = request_id c + 1
   \<and> mcp_binary_path (fst (snd (run_mcp_request e c method params))) = mcp_binary_path c"
proof -
  obtain response ev where
    "run_mcp_request e c method params =
       (response, c\<lparr>request_id := request_id c + 1\<rparr>,
        RoundTrip (server_argv c) (make_request (request_id c + 1) method params) # ev)"
    using run_mcp_request_shape by blast
  then show ?thesis by simp
qed

section \<open>Properties of the intents\<close>

lemma version_args_empty: "version_args (Some []) = version_args None"
  by (simp add: version_args_def)

lemma up_action_empty: "up_action (Some []) = up_action None"
  by (simp add: up_action_def)

lemma down_action_empty: "down_action (Some []) = down_action None"
  by (simp add: down_action_def)

lemma round_trips_show_content [simp]:
  "round_trips (snd (show_content response dflt failure)) = []"
  by (simp add: show_content_def split: sum.split option.split)

text \<open>
  Claim C10. Applying or rolling back with the empty string as version is the same
  computation as with no version: same result, same client, same events. The one
  request it sends has the empty mapping as arguments, without a \<^verbatim>\<open>version\<close> key.
\<close>

theorem empty_version_is_no_version:
  "migration_up e c (Some []) = migration_up e c None
   \<and> migration_down e c (Some []) = migration_down e c None
   \<and> round_trips (snd (snd (migration_up e c (Some [])))) =
       [RoundTrip (server_argv c)
          (make_request (request_id c + 1) ''tools/call''
             (tool_call ''migration_up'' (JObj [])))]
   \<and> round_trips (snd (snd (migration_down e c (Some [])))) =
       [RoundTrip (server_argv c)
          (make_request (request_id c + 1) ''tools/call''
             (tool_call ''migration_down'' (JObj [])))]"
proof -
  have up: "migration_up e c (Some []) = migration_up e c None"
    by (simp add: migration_up_def version_args_empty up_action_empty)
  have down: "migration_down e c (Some []) = migration_down e c None"
    by (simp add: migration_down_def version_args_empty down_action_empty)
  have va: "version_args (Some []) = JObj []"
    by (simp add: version_args_def)
  obtain r1 ev1 where r1:
    "run_mcp_request e c ''tools/call'' (tool_call ''migration_up'' (JObj [])) =
       (r1, c\<lparr>request_id := request_id c + 1\<rparr>,
        RoundTrip (server_argv c)
          (make_request (request_id c + 1) ''tools/call''
             (tool_call ''migration_up'' (JObj []))) # ev1)"
    and e1: "round_trips ev1 = []"
    using run_mcp_request_shape by blast
  obtain r2 ev2 where r2:
    "run_mcp_request e c ''tools/call'' (tool_call ''migration_down'' (JObj [])) =
       (r2, c\<lparr>request_id := request_id c + 1\<rparr>,
        RoundTrip (server_argv c)
          (make_request (request_id c + 1) ''tools/call''
             (tool_call ''migration_down'' (JObj []))) # ev2)"
    and e2: "round_trips ev2 = []"
    using run_mcp_request_shape by blast
  have t1: "round_trips (snd (snd (migration_up e c (Some [])))) =
       [RoundTrip (server_argv c)
          (make_request (request_id c + 1) ''tools/call''
             (tool_call ''migration_up'' (JObj [])))]"
    by (simp add: migration_up_def va r1 e1 split_beta)
  have t2: "round_trips (snd (snd (migration_down e c (Some [])))) =
       [RoundTrip (server_argv c)
          (make_request (request_id c + 1) ''tools/call''
             (tool_call ''migration_down'' (JObj [])))]"
    by (simp add: migration_down_def va r2 e2 split_beta)
  from up down t1 t2 show ?thesis by blast
qed

section \<open>Properties of the program\<close>

text \<open>
  Claim C7. When the configured binary path does not exist, the program, whatever the
  command (so also for \<^verbatim>\<open>status\<close>), prints the two lines of the binary-not-found
  message and exits with status 1; it makes no round trip, so no initialize call.
\<close>

theorem missing_binary_exits_1:
  "\<not> path_exists e binary \<Longrightarrow>
   script e e2 binary command args inp =
     (1, [Stdout (''Error: Binary not found at '' @ binary),
          Stdout ''Build it with: make build''])
   \<and> round_trips (snd (script e e2 binary command args inp)) = []"
  by (simp add: script_def main_def finish_def)

theorem missing_binary_exits_1_witness:
  "\<not> path_exists env_absent ''./build/mongo-essential''
   \<and> script env_absent env_absent ''./build/mongo-essential'' (Some Status) [] [] =
       (1, [Stdout ''Error: Binary not found at ./build/mongo-essential'',
            Stdout ''Build it with: make build''])
   \<and> round_trips (snd (script env_absent env_absent ''./build/mongo-essential'' (Some Status) [] [])) = []"
proof -
  have h: "\<not> path_exists env_absent ''./build/mongo-essential''"
    by (simp add: env_absent_def)
  show ?thesis
    using h missing_binary_exits_1 [OF h, of env_absent "Some Status" "[]" "[]"] by simp
qed

text \<open>
  Every intent makes exactly one round trip, with its own method name and parameters
  and the next id, and moves the counter by one, whatever the answer.
\<close>

lemma round_trips_print_tools [simp]: "round_trips (snd (print_tools e items)) = []"
  by (induction items) (auto split: sum.split prod.split)

lemma initialize_shape:
  "\<exists>r ev. initialize e c = (r, c\<lparr>request_id := request_id c + 1\<rparr>, ev)
     \<and> round_trips ev =
         [RoundTrip (server_argv c) (make_request (request_id c + 1) ''initialize'' None)]"
proof -
  obtain response ev where
    "run_mcp_request e c ''initialize'' None =
       (response, c\<lparr>request_id := request_id c + 1\<rparr>,
        RoundTrip (server_argv c) (make_request (request_id c + 1) ''initialize'' None) # ev)"
    and "round_trips ev = []"
    using run_mcp_request_shape by blast
  then show ?thesis
    by (simp add: initialize_def Let_def split: sum.split bool.split)
qed

lemma list_tools_shape:
  "\<exists>r ev. list_tools e c = (r, c\<lparr>request_id := request_id c + 1\<rparr>, ev)
     \<and> round_trips ev =
         [RoundTrip (server_argv c) (make_request (request_id c + 1) ''tools/list'' None)]"
proof -
  obtain response ev where
    "run_mcp_request e c ''tools/list'' None =
       (response, c\<lparr>request_id := request_id c + 1\<rparr>,
        RoundTrip (server_argv c) (make_request (request_id c + 1) ''tools/list'' None) # ev)"
    and "round_trips ev = []"
    using run_mcp_request_shape by blast
  moreover have "\<And>l. round_trips (snd (print_tools e l)) = []" by simp
  ultimately show ?thesis
    by (simp add: list_tools_def Let_def split_beta split: sum.split bool.split)
qed

lemma tool_intent_shape:
  assumes "\<And>e c. f e c =
     (let (response, c1, ev) = run_mcp_request e c ''tools/call'' params;
          (r, ev2) = show_content response dflt failure
      in (r, c1, Stdout line # ev @ ev2))"
  shows "\<exists>r ev. f e c = (r, c\<lparr>request_id := request_id c + 1\<rparr>, ev)
     \<and> round_trips ev =
         [RoundTrip (server_argv c) (make_request (request_id c + 1) ''tools/call'' params)]"
proof -
  obtain response ev where
    "run_mcp_request e c ''tools/call'' params =
       (response, c\<lparr>request_id := request_id c + 1\<rparr>,
        RoundTrip (server_argv c) (make_request (request_id c + 1) ''tools/call'' params) # ev)"
    and "round_trips ev = []"
    using run_mcp_request_shape by blast
  then show ?thesis
    by (simp add: assms split_beta)
qed

lemma run_intent_shape:
  "\<exists>r ev. run_intent e c i = (r, c\<lparr>request_id := request_id c + 1\<rparr>, ev)
     \<and> round_trips ev =
         [RoundTrip (server_argv c)
            (make_request (request_id c + 1) (intent_method i) (intent_params i))]"
proof (cases i)
  case Initialize
  then show ?thesis using initialize_shape [of e c] by simp
next
  case ListTools
  then show ?thesis using list_tools_shape [of e c] by simp
next
  case GetStatus
  then show ?thesis
    using tool_intent_shape [of migration_status, OF migration_status_def] by simp
next
  case (Apply version)
  then show ?thesis
    using tool_intent_shape [of "\<lambda>e c. migration_up e c version", OF migration_up_def] by simp
next
  case (Rollback version)
  then show ?thesis
    using tool_intent_shape [of "\<lambda>e c. migration_down e c version", OF migration_down_def]
    by simp
next
  case (CreateMigration name description)
  then show ?thesis
    using tool_intent_shape [of "\<lambda>e c. create_migration e c name description",
        OF create_migration_def]
    by simp
next
  case ListMigrations
  then show ?thesis
    using tool_intent_shape [of list_migrations, OF list_migrations_def] by simp
qed

lemma has_result_lacking:
  "''result'' \<notin> set (map fst kvs) \<Longrightarrow> has_result (Some (JObj kvs)) = Inr False"
  by (simp add: has_result_def py_contains_result_def map_of_eq_None_iff)

lemma has_result_None: "has_result None = Inr False"
  by (simp add: has_result_def)

lemma show_content_no_result:
  "has_result response = Inr False \<Longrightarrow>
   show_content response dflt failure = (Inr False, [Stdout failure])"
  by (simp add: show_content_def content_text_def and_then_def)

text \<open>
  Claim C4. For each of the seven intents: when the transport returns a mapping without
  a \<^verbatim>\<open>result\<close> key, as when it returns nothing (its failure), the intent prints its
  failure line after the events of the transport, returns false, and raises nothing.
\<close>

theorem missing_result_is_failure:
  assumes "run_mcp_request e c (intent_method i) (intent_params i) = (response, c1, ev)"
    and "response = None \<or> (\<exists>kvs. response = Some (JObj kvs) \<and> ''result'' \<notin> set (map fst kvs))"
  shows "run_intent e c i =
           (Inr False, c1, Stdout (intent_announce i) # ev @ [Stdout (intent_failure i)])"
proof -
  from assms(2) have hr: "has_result response = Inr False"
    using has_result_lacking has_result_None by blast
  note sc = show_content_no_result [OF hr]
  show ?thesis
  proof (cases i)
    case Initialize
    with assms(1) hr show ?thesis by (simp add: initialize_def)
  next
    case ListTools
    with assms(1) hr show ?thesis by (simp add: list_tools_def)
  next
    case GetStatus
    with assms(1) sc show ?thesis by (simp add: migration_status_def)
  next
    case (Apply version)
    with assms(1) sc show ?thesis by (simp add: migration_up_def)
  next
    case (Rollback version)
    with assms(1) sc show ?thesis by (simp add: migration_down_def)
  next
    case (CreateMigration name description)
    with assms(1) sc show ?thesis by (simp add: create_migration_def)
  next
    case ListMigrations
    with assms(1) sc show ?thesis by (simp add: list_migrations_def)
  qed
qed

lemma run_env_answering:
  "run_mcp_request (env_answering resp) c method params =
     (Some resp, c\<lparr>request_id := request_id c + 1\<rparr>,
      [RoundTrip (server_argv c) (make_request (request_id c + 1) method params)])"
  by (simp add: run_mcp_request_def next_id_def env_answering_def strip_def is_space_def
        stderr_warning_def)

lemma run_env_unstartable:
  "run_mcp_request env_unstartable c method params =
     (None, c\<lparr>request_id := request_id c + 1\<rparr>,
      [RoundTrip (server_argv c) (make_request (request_id c + 1) method params),
       Stderr (''MCP binary not found at '' @ mcp_binary_path c),
       Stderr ''Build the binary with: make build''])"
  by (simp add: run_mcp_request_def next_id_def env_unstartable_def)

theorem missing_result_is_failure_witness:
  "run_intent (env_answering error_response) (MCPClient ''./build/mongo-essential'') GetStatus =
     (Inr False, \<lparr>mcp_binary_path = ''./build/mongo-essential'', request_id = 1\<rparr>,
      [Stdout ''Getting migration status...'',
       RoundTrip [''./build/mongo-essential'', ''mcp'', ''--with-examples'']
         (make_request 1 ''tools/call'' (tool_call ''migration_status'' (JObj []))),
       Stdout ''U+274C Failed to get migration status''])
   \<and> run_intent env_unstartable (MCPClient ''./build/mongo-essential'') GetStatus =
     (Inr False, \<lparr>mcp_binary_path = ''./build/mongo-essential'', request_id = 1\<rparr>,
      [Stdout ''Getting migration status...'',
       RoundTrip [''./build/mongo-essential'', ''mcp'', ''--with-examples'']
         (make_request 1 ''tools/call'' (tool_call ''migration_status'' (JObj []))),
       Stderr ''MCP binary not found at ./build/mongo-essential'',
       Stderr ''Build the binary with: make build'',
       Stdout ''U+274C Failed to get migration status''])"
proof -
  let ?c = "MCPClient ''./build/mongo-essential''"
  have a: "run_mcp_request (env_answering error_response) ?c
             (intent_method GetStatus) (intent_params GetStatus) =
           (Some error_response, ?c\<lparr>request_id := request_id ?c + 1\<rparr>,
            [RoundTrip (server_argv ?c)
               (make_request (request_id ?c + 1) (intent_method GetStatus)
                  (intent_params GetStatus))])"
    by (rule run_env_answering)
  have b: "Some error_response = None \<or>
           (\<exists>kvs. Some error_response = Some (JObj kvs) \<and> ''result'' \<notin> set (map fst kvs))"
    by (simp add: error_response_def)
  have a': "run_mcp_request env_unstartable ?c
             (intent_method GetStatus) (intent_params GetStatus) =
           (None, ?c\<lparr>request_id := request_id ?c + 1\<rparr>,
            [RoundTrip (server_argv ?c)
               (make_request (request_id ?c + 1) (intent_method GetStatus)
                  (intent_params GetStatus)),
             Stderr (''MCP binary not found at '' @ mcp_binary_path ?c),
             Stderr ''Build the binary with: make build''])"
    by (rule run_env_unstartable)
  have b': "None = None \<or>
           (\<exists>kvs. None = Some (JObj kvs) \<and> ''result'' \<notin> set (map fst kvs))"
    by simp
  show ?thesis
    using missing_result_is_failure [OF a b] missing_result_is_failure [OF a' b']
    by (simp add: MCPClient_def server_argv_def)
qed

section \<open>Properties of the interactive dispatcher\<close>

lemma round_trips_after_command [simp]:
  "round_trips (snd (snd (after_command res))) = round_trips (snd (snd res))"
  by (cases res) (simp add: after_command_def split: sum.split)

lemma loop_body_create_example:
  "loop_body e c ''create add_index Add user email index'' =
     after_command (create_migration e c ''Add'' ''user email index'')"
  by (simp add: loop_body_def strip_def is_space_def numeral_2_eq_2)

text \<open>
  Claim C1, at the line \<^verbatim>\<open>create add_index Add user email index\<close>. The claim asks for one
  request with name \<^verbatim>\<open>add_index\<close> and description \<^verbatim>\<open>Add user email index\<close>. The
  dispatcher splits the text after the name once more: the one request it sends has the
  name \<^verbatim>\<open>Add\<close> and the description \<^verbatim>\<open>user email index\<close>, and \<^verbatim>\<open>add_index\<close> is
  dropped.
\<close>

theorem interactive_create_takes_second_token:
  "round_trips (snd (snd (loop_body e c ''create add_index Add user email index''))) =
     [RoundTrip (server_argv c)
        (make_request (request_id c + 1) ''tools/call''
           (tool_call ''migration_create''
              (JObj [(''name'', JStr ''Add''), (''description'', JStr ''user email index'')])))]
   \<and> round_trips (snd (snd (loop_body e c ''create add_index Add user email index''))) \<noteq>
     [RoundTrip (server_argv c)
        (make_request (request_id c + 1) ''tools/call''
           (tool_call ''migration_create''
              (JObj [(''name'', JStr ''add_index''),
                     (''description'', JStr ''Add user email index'')])))]"
proof -
  obtain r ev where
    "run_intent e c (CreateMigration ''Add'' ''user email index'') =
       (r, c\<lparr>request_id := request_id c + 1\<rparr>, ev)"
    and "round_trips ev =
       [RoundTrip (server_argv c)
          (make_request (request_id c + 1)
             (intent_method (CreateMigration ''Add'' ''user email index''))
             (intent_params (CreateMigration ''Add'' ''user email index'')))]"
    using run_intent_shape by blast
  then show ?thesis
    by (simp add: loop_body_create_example make_request_def params_or_empty_def tool_call_def)
qed

lemma partition_space_first:
  "CHR '' '' \<notin> set a \<Longrightarrow> partition_space (a @ CHR '' '' # b) = Some (a, b)"
  by (induction a) auto

lemma partition_space_none:
  "CHR '' '' \<notin> set b \<Longrightarrow> partition_space b = None"
  by (induction b) auto

text \<open>
  Claim C9, amended. An input line that, stripped, is \<^verbatim>\<open>create\<close>, one space, a word,
  one space and a second word, the two words without a space in them, prints the usage
  line and the blank line after it; the client is unchanged and no round trip is made.
\<close>

theorem interactive_create_one_word_is_usage:
  assumes "strip line = ''create '' @ a @ '' '' @ b"
    and "CHR '' '' \<notin> set a"
    and "CHR '' '' \<notin> set b"
  shows "loop_body e c line = (Inr Next, c, [Stdout usage_create, Stdout []])"
proof -
  have parts: "py_split (''create '' @ a @ '' '' @ b) 2 = [''create'', a, b]"
    using partition_space_first [OF assms(2), of b]
    by (simp add: numeral_2_eq_2)
  have name_desc: "py_split b 1 = [b]"
    using partition_space_none [OF assms(3)] by simp
  show ?thesis
    unfolding loop_body_def Let_def assms(1) parts
    using partition_space_none [OF assms(3)] by simp
qed

theorem interactive_create_one_word_is_usage_witness:
  "strip ''create add_index Add'' = ''create '' @ ''add_index'' @ '' '' @ ''Add''
   \<and> CHR '' '' \<notin> set ''add_index''
   \<and> CHR '' '' \<notin> set ''Add''
   \<and> loop_body (env_answering (text_response ''Created'')) (MCPClient ''./build/mongo-essential'')
         ''create add_index Add'' =
       (Inr Next, MCPClient ''./build/mongo-essential'',
        [Stdout ''Usage: create <name> <description>'', Stdout []])"
proof -
  have h1: "strip ''create add_index Add'' = ''create '' @ ''add_index'' @ '' '' @ ''Add''"
    by (simp add: strip_def is_space_def)
  have h2: "CHR '' '' \<notin> set ''add_index''" by simp
  have h3: "CHR '' '' \<notin> set ''Add''" by simp
  show ?thesis
    using h1 h2 h3
      interactive_create_one_word_is_usage [OF h1 h2 h3,
        of "env_answering (text_response ''Created'')" "MCPClient ''./build/mongo-essential''"]
    by (simp add: usage_create_def)
qed

section \<open>Request ids\<close>

lemma request_ids_simps [simp]:
  "request_ids [] = []"
  "request_ids (RoundTrip argv (make_request rid method params) # evs) = rid # request_ids evs"
  "request_ids (Stdout s # evs) = request_ids evs"
  "request_ids (Stderr s # evs) = request_ids evs"
  "request_ids (Prompt s # evs) = request_ids evs"
  "request_ids (Traceback err # evs) = request_ids evs"
  "request_ids (evs @ evs') = request_ids evs @ request_ids evs'"
  by (simp_all add: request_ids_def make_request_def)

lemma request_ids_round_trips: "request_ids (round_trips evs) = request_ids evs"
proof (induction evs)
  case Nil
  then show ?case by simp
next
  case (Cons ev evs)
  then show ?case by (cases ev) (simp_all add: request_ids_def)
qed

lemma request_ids_no_round_trips: "round_trips evs = [] \<Longrightarrow> request_ids evs = []"
  using request_ids_round_trips [of evs] by simp

lemma run_requests_ids:
  "request_ids (snd (run_requests e c calls)) =
     [request_id c + 1 .. request_id c + int (length calls)]
   \<and> fst (run_requests e c calls) = c\<lparr>request_id := request_id c + int (length calls)\<rparr>"
proof (induction calls arbitrary: c)
  case Nil
  then show ?case by simp
next
  case (Cons call calls)
  obtain m p where call: "call = (m, p)" by (cases call)
  obtain response ev where run:
    "run_mcp_request e c m p =
       (response, c\<lparr>request_id := request_id c + 1\<rparr>,
        RoundTrip (server_argv c) (make_request (request_id c + 1) m p) # ev)"
    and quiet: "round_trips ev = []"
    using run_mcp_request_shape by blast
  have rest: "request_ids (snd (run_requests e (c\<lparr>request_id := request_id c + 1\<rparr>) calls)) =
                [request_id c + 2 .. request_id c + 1 + int (length calls)]"
    and rest_c: "fst (run_requests e (c\<lparr>request_id := request_id c + 1\<rparr>) calls) =
                c\<lparr>request_id := request_id c + 1 + int (length calls)\<rparr>"
    using Cons.IH [of "c\<lparr>request_id := request_id c + 1\<rparr>"] by (simp_all add: add.assoc)
  have "[request_id c + 1 .. request_id c + int (length (call # calls))] =
          (request_id c + 1) # [request_id c + 2 .. request_id c + 1 + int (length calls)]"
    by (subst upto_rec1) (simp_all add: add.commute add.left_commute)
  with rest rest_c show ?case
    by (simp add: call run request_ids_no_round_trips [OF quiet] split_beta add.assoc)
qed

section \<open>Properties of one-shot invocations\<close>

lemma run_command_intent:
  "command_intent cmd args = Some i \<Longrightarrow> run_command e c cmd args = exit_with (run_intent e c i)"
  by (cases cmd) (auto simp: run_command_def split: list.splits)

lemma run_command_no_intent:
  "command_intent cmd args = None \<Longrightarrow>
   run_command e c cmd args = (SysExit 1, if cmd = Create then [Stdout usage_create] else [])"
  by (cases cmd) (auto simp: run_command_def split: list.splits)

lemma exit_with_not_Returned: "fst (exit_with res) \<noteq> Returned"
  by (cases res) (simp add: exit_with_def split: sum.split)

lemma run_command_not_Returned: "fst (run_command e c cmd args) \<noteq> Returned"
proof (cases "command_intent cmd args")
  case None
  then show ?thesis by (simp add: run_command_no_intent)
next
  case (Some i)
  then show ?thesis by (simp add: run_command_intent exit_with_not_Returned)
qed

lemma script_not_Returned:
  "main e binary command args inp = (r, rest, ev) \<Longrightarrow> r \<noteq> Returned \<Longrightarrow>
   script e e2 binary command args inp = (fst (finish r), ev @ snd (finish r))"
  by (cases r) (simp_all add: script_def)

lemma main_one_shot_gated:
  assumes "path_exists e binary" "cmd \<noteq> Init" "cmd \<noteq> Interactive"
    and "initialize e (MCPClient binary) = (r, c1, ev1)"
  shows "main e binary (Some cmd) args inp =
           (case r of
              Inl err \<Rightarrow> (Uncaught err, inp, ev1)
            | Inr False \<Rightarrow> (SysExit 1, inp, ev1)
            | Inr True \<Rightarrow>
                (fst (run_command e c1 cmd args), inp, ev1 @ snd (run_command e c1 cmd args)))"
  using assms by (simp add: main_def Let_def split_beta split: sum.split bool.split)

lemma script_one_shot_gated:
  assumes "path_exists e binary" "cmd \<noteq> Init" "cmd \<noteq> Interactive"
    and "initialize e (MCPClient binary) = (r, c1, ev1)"
  shows "script e e2 binary (Some cmd) args inp =
           (case r of
              Inl err \<Rightarrow> (1, ev1 @ [Traceback err])
            | Inr False \<Rightarrow> (1, ev1)
            | Inr True \<Rightarrow>
                (fst (finish (fst (run_command e c1 cmd args))),
                 ev1 @ snd (run_command e c1 cmd args) @
                 snd (finish (fst (run_command e c1 cmd args)))))"
proof (cases r)
  case (Inl err)
  with main_one_shot_gated [OF assms, of args inp]
  have "main e binary (Some cmd) args inp = (Uncaught err, inp, ev1)" by simp
  from script_not_Returned [OF this] Inl show ?thesis by (simp add: finish_def)
next
  case (Inr ok)
  show ?thesis
  proof (cases ok)
    case False
    with Inr main_one_shot_gated [OF assms, of args inp]
    have "main e binary (Some cmd) args inp = (SysExit 1, inp, ev1)" by simp
    from script_not_Returned [OF this] Inr False show ?thesis by (simp add: finish_def)
  next
    case True
    with Inr main_one_shot_gated [OF assms, of args inp]
    have "main e binary (Some cmd) args inp =
            (fst (run_command e c1 cmd args), inp, ev1 @ snd (run_command e c1 cmd args))"
      by simp
    from script_not_Returned [OF this run_command_not_Returned] Inr True
    show ?thesis by simp
  qed
qed

lemma round_trips_finish [simp]: "round_trips (snd (finish r)) = []"
  by (cases r) (simp_all add: finish_def)

lemma round_trips_exit_with [simp]:
  "round_trips (snd (exit_with res)) = round_trips (snd (snd res))"
  by (cases res) (simp add: exit_with_def split: sum.split)

lemma round_trips_run_command:
  "round_trips (snd (run_command e c cmd args)) =
     (case command_intent cmd args of
        None \<Rightarrow> []
      | Some i \<Rightarrow>
          [RoundTrip (server_argv c)
             (make_request (request_id c + 1) (intent_method i) (intent_params i))])"
proof (cases "command_intent cmd args")
  case None
  then show ?thesis by (simp add: run_command_no_intent)
next
  case (Some i)
  obtain r ev where "run_intent e c i = (r, c\<lparr>request_id := request_id c + 1\<rparr>, ev)"
    and "round_trips ev =
         [RoundTrip (server_argv c)
            (make_request (request_id c + 1) (intent_method i) (intent_params i))]"
    using run_intent_shape by blast
  with Some show ?thesis by (simp add: run_command_intent)
qed

text \<open>
  Claim C5. A one-shot command other than \<^verbatim>\<open>init\<close>, with the binary on disk, starts
  with the initialize call: the first round trip of the run is the initialize request,
  with id 1. If initialize returns false, the program exits with status 1 right after
  the events of that call, and if it raises, after the traceback; only if it returns
  true does the command run, with at most one more round trip, the intent's, with id 2.
\<close>

theorem one_shot_initializes_first:
  assumes "path_exists e binary" "cmd \<noteq> Init" "cmd \<noteq> Interactive"
    and "initialize e (MCPClient binary) = (r, c1, ev1)"
  shows "script e e2 binary (Some cmd) args inp =
           (case r of
              Inl err \<Rightarrow> (1, ev1 @ [Traceback err])
            | Inr False \<Rightarrow> (1, ev1)
            | Inr True \<Rightarrow>
                (fst (finish (fst (run_command e c1 cmd args))),
                 ev1 @ snd (run_command e c1 cmd args) @
                 snd (finish (fst (run_command e c1 cmd args)))))
         \<and> round_trips (snd (script e e2 binary (Some cmd) args inp)) =
             RoundTrip [binary, ''mcp'', ''--with-examples''] (make_request 1 ''initialize'' None) #
             (case r of
                Inr True \<Rightarrow>
                  (case command_intent cmd args of
                     None \<Rightarrow> []
                   | Some i \<Rightarrow>
                       [RoundTrip [binary, ''mcp'', ''--with-examples'']
                          (make_request 2 (intent_method i) (intent_params i))])
              | _ \<Rightarrow> [])"
proof -
  note s = script_one_shot_gated [OF assms, of e2 args inp]
  obtain r' ev' where
    "initialize e (MCPClient binary) =
       (r', (MCPClient binary)\<lparr>request_id := request_id (MCPClient binary) + 1\<rparr>, ev')"
    and "round_trips ev' =
       [RoundTrip (server_argv (MCPClient binary))
          (make_request (request_id (MCPClient binary) + 1) ''initialize'' None)]"
    using initialize_shape by blast
  with assms(4) have c1: "c1 = \<lparr>mcp_binary_path = binary, request_id = 1\<rparr>"
    and rt: "round_trips ev1 =
       [RoundTrip [binary, ''mcp'', ''--with-examples''] (make_request 1 ''initialize'' None)]"
    by (simp_all add: MCPClient_def server_argv_def)
  have "round_trips (snd (script e e2 binary (Some cmd) args inp)) =
             RoundTrip [binary, ''mcp'', ''--with-examples''] (make_request 1 ''initialize'' None) #
             (case r of
                Inr True \<Rightarrow>
                  (case command_intent cmd args of
                     None \<Rightarrow> []
                   | Some i \<Rightarrow>
                       [RoundTrip [binary, ''mcp'', ''--with-examples'']
                          (make_request 2 (intent_method i) (intent_params i))])
              | _ \<Rightarrow> [])"
    unfolding s
    by (simp add: rt round_trips_run_command c1 server_argv_def
          split: sum.split bool.split option.split)
  with s show ?thesis by simp
qed

lemma initialize_env_unstartable:
  "initialize env_unstartable (MCPClient binary) =
     (Inr False, \<lparr>mcp_binary_path = binary, request_id = 1\<rparr>,
      [Stdout ''Initializing MCP server...'',
       RoundTrip [binary, ''mcp'', ''--with-examples''] (make_request 1 ''initialize'' None),
       Stderr (''MCP binary not found at '' @ binary),
       Stderr ''Build the binary with: make build'',
       Stdout ''U+274C Failed to initialize MCP server''])"
  by (simp add: initialize_def run_env_unstartable has_result_def MCPClient_def server_argv_def)

theorem one_shot_initializes_first_witness:
  "path_exists env_unstartable ''./build/mongo-essential''
   \<and> Status \<noteq> Init \<and> Status \<noteq> Interactive
   \<and> script env_unstartable env_unstartable ''./build/mongo-essential'' (Some Status) [] [] =
       (1, [Stdout ''Initializing MCP server...'',
            RoundTrip [''./build/mongo-essential'', ''mcp'', ''--with-examples'']
              (make_request 1 ''initialize'' None),
            Stderr ''MCP binary not found at ./build/mongo-essential'',
            Stderr ''Build the binary with: make build'',
            Stdout ''U+274C Failed to initialize MCP server''])
   \<and> round_trips (snd (script env_unstartable env_unstartable ''./build/mongo-essential'' (Some Status) [] [])) =
       [RoundTrip [''./build/mongo-essential'', ''mcp'', ''--with-examples'']
          (make_request 1 ''initialize'' None)]"
proof -
  have h1: "path_exists env_unstartable ''./build/mongo-essential''"
    by (simp add: env_unstartable_def)
  have h2: "Status \<noteq> Init" and h3: "Status \<noteq> Interactive" by simp_all
  note h4 = initialize_env_unstartable [of "''./build/mongo-essential''"]
  show ?thesis
    using h1 one_shot_initializes_first [OF h1 h2 h3 h4, of env_unstartable "[]" "[]"] by simp
qed

lemma content_text_first_block:
  assumes "map_of kvs ''result'' = Some (JObj res)"
    and "map_of res ''content'' = Some (JArr (JObj blk # blocks))"
    and "map_of blk ''text'' = Some (JStr t)"
  shows "content_text (Some (JObj kvs)) dflt = Inr (Some (CHR 0x0A # t))"
proof -
  from assms(1) have "kvs \<noteq> []" by auto
  with assms show ?thesis
    by (simp add: content_text_def has_result_def py_contains_result_def the_result_def
          py_getitem_def py_get_def py_len_def py_getitem0_def and_then_def)
qed

text \<open>
  Claim C6. One-shot \<^verbatim>\<open>up v\<close> with a non-empty version \<open>v\<close> (the scenario has
  \<^verbatim>\<open>20240101_001\<close>), the binary on disk and initialize returning true: when the round
  trip of the request with id 2, method \<^verbatim>\<open>tools/call\<close> and parameters
  \<^verbatim>\<open>{name: "migration_up", arguments: {version: v}}\<close> ends with an output that
  parses to a mapping whose \<^verbatim>\<open>result.content\<close> starts with a block with a \<^verbatim>\<open>text\<close>
  string, then the program makes that round trip, prints the text after a newline and
  exits with status 0. The request is written out as the JSON value it is.
\<close>

theorem one_shot_up_version_succeeds:
  assumes "path_exists e binary"
    and "initialize e (MCPClient binary) = (Inr True, c1, ev1)"
    and "v \<noteq> []"
    and "subprocess e [binary, ''mcp'', ''--with-examples'']
           (JObj [(''jsonrpc'', JStr ''2.0''),
                  (''id'', JInt 2),
                  (''method'', JStr ''tools/call''),
                  (''params'',
                   JObj [(''name'', JStr ''migration_up''),
                         (''arguments'', JObj [(''version'', JStr v)])])]) = Completed out err"
    and "strip out \<noteq> []"
    and "json_loads e (strip out) = Parsed (JObj kvs)"
    and "map_of kvs ''result'' = Some (JObj res)"
    and "map_of res ''content'' = Some (JArr (JObj blk # blocks))"
    and "map_of blk ''text'' = Some (JStr t)"
  shows "script e e2 binary (Some Up) (v # others) inp =
           (0, ev1 @
               [Stdout (''Running migrations up to version '' @ v @ ''...''),
                RoundTrip [binary, ''mcp'', ''--with-examples'']
                  (JObj [(''jsonrpc'', JStr ''2.0''),
                         (''id'', JInt 2),
                         (''method'', JStr ''tools/call''),
                         (''params'',
                          JObj [(''name'', JStr ''migration_up''),
                                (''arguments'', JObj [(''version'', JStr v)])])])] @
               stderr_warning err @ [Stdout (CHR 0x0A # t)])"
proof -
  obtain r' ev' where
    "initialize e (MCPClient binary) =
       (r', (MCPClient binary)\<lparr>request_id := request_id (MCPClient binary) + 1\<rparr>, ev')"
    using initialize_shape by blast
  with assms(2) have c1: "c1 = \<lparr>mcp_binary_path = binary, request_id = 1\<rparr>"
    by (simp add: MCPClient_def)
  have va: "version_args (Some v) = JObj [(''version'', JStr v)]"
    and ua: "up_action (Some v) = ''up to version '' @ v"
    using assms(3) by (simp_all add: version_args_def up_action_def)
  have run: "run_mcp_request e c1 ''tools/call''
               (tool_call ''migration_up'' (JObj [(''version'', JStr v)])) =
             (Some (JObj kvs), \<lparr>mcp_binary_path = binary, request_id = 2\<rparr>,
              RoundTrip [binary, ''mcp'', ''--with-examples'']
                (JObj [(''jsonrpc'', JStr ''2.0''),
                       (''id'', JInt 2),
                       (''method'', JStr ''tools/call''),
                       (''params'',
                        JObj [(''name'', JStr ''migration_up''),
                              (''arguments'', JObj [(''version'', JStr v)])])]) #
              stderr_warning err)"
    using assms(4,5,6)
    by (simp add: run_mcp_request_def next_id_def c1 server_argv_def make_request_def
          tool_call_def params_or_empty_def)
  have up: "migration_up e c1 (Some v) =
              (Inr True, \<lparr>mcp_binary_path = binary, request_id = 2\<rparr>,
               [Stdout (''Running migrations up to version '' @ v @ ''...''),
                RoundTrip [binary, ''mcp'', ''--with-examples'']
                  (JObj [(''jsonrpc'', JStr ''2.0''),
                         (''id'', JInt 2),
                         (''method'', JStr ''tools/call''),
                         (''params'',
                          JObj [(''name'', JStr ''migration_up''),
                                (''arguments'', JObj [(''version'', JStr v)])])])] @
               stderr_warning err @ [Stdout (CHR 0x0A # t)])"
    by (simp add: migration_up_def va ua run show_content_def
          content_text_first_block [OF assms(7,8,9)])
  have cmd: "run_command e c1 Up (v # others) = exit_with (migration_up e c1 (Some v))"
    by (simp add: run_command_def)
  have "Up \<noteq> Init" and "Up \<noteq> Interactive" by simp_all
  from script_one_shot_gated [OF assms(1) this assms(2), of e2 "v # others" inp]
  show ?thesis
    by (simp add: cmd up exit_with_def finish_def)
qed

lemma initialize_env_answering_text:
  "initialize (env_answering (text_response t)) (MCPClient binary) =
     (Inr True, \<lparr>mcp_binary_path = binary, request_id = 1\<rparr>,
      [Stdout ''Initializing MCP server...'',
       RoundTrip [binary, ''mcp'', ''--with-examples''] (make_request 1 ''initialize'' None),
       Stdout ''U+2705 Connected to mongo-essential vunknown''])"
  by (simp add: initialize_def run_env_answering has_result_def py_contains_result_def
        the_result_def py_getitem_def py_get_def and_then_def format_value_def
        text_response_def MCPClient_def server_argv_def)

theorem one_shot_up_version_succeeds_witness:
  "script (env_answering (text_response ''Applied 1 migration''))
      (env_answering (text_response ''Applied 1 migration''))
      ''./build/mongo-essential'' (Some Up) [''20240101_001''] [] =
     (0, [Stdout ''Initializing MCP server...'',
          RoundTrip [''./build/mongo-essential'', ''mcp'', ''--with-examples'']
            (JObj [(''jsonrpc'', JStr ''2.0''),
                   (''id'', JInt 1),
                   (''method'', JStr ''initialize''),
                   (''params'', JObj [])]),
          Stdout ''U+2705 Connected to mongo-essential vunknown'',
          Stdout ''Running migrations up to version 20240101_001...'',
          RoundTrip [''./build/mongo-essential'', ''mcp'', ''--with-examples'']
            (JObj [(''jsonrpc'', JStr ''2.0''),
                   (''id'', JInt 2),
                   (''method'', JStr ''tools/call''),
                   (''params'',
                    JObj [(''name'', JStr ''migration_up''),
                          (''arguments'', JObj [(''version'', JStr ''20240101_001'')])])]),
          Stdout (CHR 0x0A # ''Applied 1 migration'')])"
proof -
  let ?e = "env_answering (text_response ''Applied 1 migration'')"
  have h1: "path_exists ?e ''./build/mongo-essential''"
    by (simp add: env_answering_def)
  note h2 = initialize_env_answering_text [of "''Applied 1 migration''" "''./build/mongo-essential''"]
  have h3: "''20240101_001'' \<noteq> []" by simp
  have h4: "subprocess ?e [''./build/mongo-essential'', ''mcp'', ''--with-examples'']
           (JObj [(''jsonrpc'', JStr ''2.0''),
                  (''id'', JInt 2),
                  (''method'', JStr ''tools/call''),
                  (''params'',
                   JObj [(''name'', JStr ''migration_up''),
                         (''arguments'', JObj [(''version'', JStr ''20240101_001'')])])]) =
           Completed ''{...}'' []"
    by (simp add: env_answering_def)
  have h5: "strip ''{...}'' \<noteq> []" by (simp add: strip_def is_space_def)
  have h6: "json_loads ?e (strip ''{...}'') =
              Parsed (JObj [(''jsonrpc'', JStr ''2.0''),
                (''result'', JObj [(''content'', JArr [JObj [(''type'', JStr ''text''),
                   (''text'', JStr ''Applied 1 migration'')]])])])"
    by (simp add: env_answering_def text_response_def)
  have h7: "map_of [(''jsonrpc'', JStr ''2.0''),
                (''result'', JObj [(''content'', JArr [JObj [(''type'', JStr ''text''),
                   (''text'', JStr ''Applied 1 migration'')]])])] ''result'' =
            Some (JObj [(''content'', JArr [JObj [(''type'', JStr ''text''),
                   (''text'', JStr ''Applied 1 migration'')]])])"
    by simp
  have h8: "map_of [(''content'', JArr [JObj [(''type'', JStr ''text''),
                   (''text'', JStr ''Applied 1 migration'')]])] ''content'' =
            Some (JArr (JObj [(''type'', JStr ''text''),
                   (''text'', JStr ''Applied 1 migration'')] # []))"
    by simp
  have h9: "map_of [(''type'', JStr ''text''), (''text'', JStr ''Applied 1 migration'')] ''text'' =
            Some (JStr ''Applied 1 migration'')"
    by simp
  show ?thesis
    using one_shot_up_version_succeeds [OF h1 h2 h3 h4 h5 h6 h7 h8 h9, of ?e "[]" "[]"]
    by (simp add: stderr_warning_def strip_def make_request_def params_or_empty_def)
qed

section \<open>Exit status\<close>

lemma script_missing_binary:
  "\<not> path_exists e binary \<Longrightarrow> fst (script e e2 binary command args inp) = 1"
  by (simp add: script_def main_def finish_def)

lemma operation_succeeds_gated:
  assumes "cmd \<noteq> Init" and "initialize e (MCPClient binary) = (r, c1, ev1)"
  shows "operation_succeeds e binary cmd args =
           (r = Inr True \<and>
            (\<exists>i. command_intent cmd args = Some i \<and> fst (run_intent e c1 i) = Inr True))"
  using assms
  by (auto simp: operation_succeeds_def split: option.split sum.split bool.split)

lemma finish_exit_with:
  "fst (finish (fst (exit_with res))) = (if fst res = Inr True then 0 else 1)"
  by (cases res) (auto simp: exit_with_def finish_def split: sum.split)

lemma status_run_command:
  "fst (finish (fst (run_command e c cmd args))) =
     (if (\<exists>i. command_intent cmd args = Some i \<and> fst (run_intent e c i) = Inr True)
      then 0 else 1)"
proof (cases "command_intent cmd args")
  case None
  then show ?thesis by (simp add: run_command_no_intent finish_def)
next
  case (Some i)
  then show ?thesis by (simp add: run_command_intent finish_exit_with)
qed

lemma script_init:
  assumes "path_exists e binary"
  shows "script e e2 binary (Some Init) args inp =
           (fst (finish (fst (run_command e (MCPClient binary) Init args))),
            snd (run_command e (MCPClient binary) Init args) @
            snd (finish (fst (run_command e (MCPClient binary) Init args))))"
proof -
  have "main e binary (Some Init) args inp =
          (fst (run_command e (MCPClient binary) Init args), inp,
           snd (run_command e (MCPClient binary) Init args))"
    using assms by (simp add: main_def Let_def split_beta)
  from script_not_Returned [OF this run_command_not_Returned] show ?thesis .
qed

lemma one_shot_status:
  assumes "path_exists e binary" and "cmd \<noteq> Interactive"
  shows "fst (script e e2 binary (Some cmd) args inp) =
           (if operation_succeeds e binary cmd args then 0 else 1)"
proof (cases "cmd = Init")
  case True
  then show ?thesis
    using script_init [OF assms(1), of e2 args inp]
    by (simp add: status_run_command operation_succeeds_def)
next
  case False
  obtain r c1 ev1 where i: "initialize e (MCPClient binary) = (r, c1, ev1)"
    by (cases "initialize e (MCPClient binary)") auto
  show ?thesis
    unfolding script_one_shot_gated [OF assms(1) False assms(2) i, of e2 args inp]
      operation_succeeds_gated [OF False i]
    by (simp add: status_run_command split: sum.split bool.split)
qed

text \<open>
  In interactive mode \<^verbatim>\<open>main\<close> returns, unless an exception escapes; what the session
  reported plays no part.
\<close>

lemma main_interactive:
  assumes "path_exists e binary" and "command = None \<or> command = Some Interactive"
  shows "main e binary command args inp =
           ((case fst (interactive_mode e (MCPClient binary) inp) of
               Inl err \<Rightarrow> Uncaught err
             | Inr u \<Rightarrow> Returned),
            fst (snd (snd (interactive_mode e (MCPClient binary) inp))),
            snd (snd (snd (interactive_mode e (MCPClient binary) inp))))"
  using assms by (auto simp: main_def split: prod.split sum.split)

lemma script_interactive_status:
  assumes "path_exists e binary" and "command = None \<or> command = Some Interactive"
  shows "fst (script e e2 binary command args inp) =
           (if interactive_returns e binary inp \<and> path_exists e2 binary
               \<and> interactive_returns e2 binary (remaining_input e binary inp)
            then 0 else 1)"
proof (cases "fst (interactive_mode e (MCPClient binary) inp)")
  case (Inl err)
  then show ?thesis
    by (simp add: script_def main_interactive [OF assms] interactive_returns_def finish_def
          split_beta)
next
  case (Inr u)
  show ?thesis
  proof (cases "path_exists e2 binary")
    case False
    then have "main e2 binary command args (remaining_input e binary inp) =
                 (SysExit 1, remaining_input e binary inp,
                  [Stdout (''Error: Binary not found at '' @ binary),
                   Stdout ''Build it with: make build''])"
      by (simp add: main_def)
    with Inr False show ?thesis
      by (simp add: script_def main_interactive [OF assms] remaining_input_def finish_def
            split_beta)
  next
    case True
    note second = main_interactive [OF True assms(2), of args
        "fst (snd (snd (interactive_mode e (MCPClient binary) inp)))"]
    from Inr True show ?thesis
      by (simp add: script_def main_interactive [OF assms] second remaining_input_def
            interactive_returns_def finish_def split_beta split: sum.split)
  qed
qed

lemma interactive_mode_init_failed:
  "initialize e c = (Inr False, c1, ev) \<Longrightarrow>
   interactive_mode e c inp = (Inr (), c1, inp, banner @ ev)"
  by (simp add: interactive_mode_def)

lemma init_failed_returns:
  assumes "fst (initialize e (MCPClient binary)) = Inr False"
  shows "interactive_returns e binary inp \<and> remaining_input e binary inp = inp"
proof -
  obtain c1 ev where i: "initialize e (MCPClient binary) = (Inr False, c1, ev)"
    using assms by (cases "initialize e (MCPClient binary)") auto
  from interactive_mode_init_failed [OF i, of inp] show ?thesis
    by (simp add: interactive_returns_def remaining_input_def)
qed

text \<open>An exception escapes interactive mode only when a method of the client raises.\<close>

lemma startswith_append: "startswith s p \<Longrightarrow> \<exists>rest. s = p @ rest"
  by (induction s p rule: startswith.induct) auto

lemma split_after_up:
  "startswith s ''up '' \<Longrightarrow> \<exists>version. py_index (py_split s 1) 1 = Inr version"
  by (drule startswith_append) (auto simp: py_index_def)

lemma split_after_down:
  "startswith s ''down '' \<Longrightarrow> \<exists>version. py_index (py_split s 1) 1 = Inr version"
  by (drule startswith_append) (auto simp: py_index_def)

lemma after_command_raises:
  "fst (after_command res) = Inl err \<Longrightarrow> fst res = Inl err"
  by (cases res) (auto simp: after_command_def split: sum.splits)

lemma loop_body_raises:
  assumes "fst (loop_body e c line) = Inl err"
  shows "\<exists>i. fst (run_intent e c i) = Inl err"
proof -
  let ?command = "strip line"
  consider (tools) "fst (after_command (run_intent e c ListTools)) = Inl err"
    | (status) "fst (after_command (run_intent e c GetStatus)) = Inl err"
    | (up) version where "fst (after_command (run_intent e c (Apply version))) = Inl err"
    | (down) version where "fst (after_command (run_intent e c (Rollback version))) = Inl err"
    | (create) name description where
        "fst (after_command (run_intent e c (CreateMigration name description))) = Inl err"
    | (list) "fst (after_command (run_intent e c ListMigrations)) = Inl err"
  proof (cases "startswith ?command ''up ''")
    case True
    then obtain version where "py_index (py_split ?command 1) 1 = Inr version"
      using split_after_up by blast
    with True assms up [of "Some version"] tools status up [of None] show ?thesis
      by (auto simp: loop_body_def Let_def split: if_splits)
  next
    case not_up: False
    show ?thesis
    proof (cases "startswith ?command ''down ''")
      case True
      then obtain version where "py_index (py_split ?command 1) 1 = Inr version"
        using split_after_down by blast
      with True not_up assms down [of "Some version"] tools status up [of None] down [of None]
      show ?thesis
        by (auto simp: loop_body_def Let_def split: if_splits)
    next
      case False
      with not_up assms tools status up [of None] down [of None] list
        create [of "py_split (py_split ?command 2 ! 2) 1 ! 0"
                   "py_split (py_split ?command 2 ! 2) 1 ! 1"]
      show ?thesis
        by (auto simp: loop_body_def Let_def split: if_splits)
    qed
  qed
  then show ?thesis by cases (blast dest: after_command_raises)+
qed

lemma interactive_loop_raises:
  "fst (interactive_loop e c inp) = Inl err \<Longrightarrow> \<exists>c' i. fst (run_intent e c' i) = Inl err"
proof (induction inp arbitrary: c)
  case Nil
  then show ?case by simp
next
  case (Cons x inp)
  show ?case
  proof (cases x)
    case KeyboardInterrupt
    with Cons.prems show ?thesis by simp
  next
    case (Line l)
    obtain r c1 ev where lb: "loop_body e c l = (r, c1, ev)"
      by (cases "loop_body e c l") auto
    show ?thesis
    proof (cases r)
      case (Inl err')
      with Cons.prems Line lb have "fst (loop_body e c l) = Inl err" by simp
      from loop_body_raises [OF this] show ?thesis by blast
    next
      case (Inr ctl)
      show ?thesis
      proof (cases ctl)
        case Break
        with Cons.prems Line lb Inr show ?thesis by simp
      next
        case Next
        with Cons.prems Line lb Inr have "fst (interactive_loop e c1 inp) = Inl err"
          by (simp add: split_beta)
        from Cons.IH [OF this] show ?thesis .
      qed
    qed
  qed
qed

lemma interactive_mode_raises:
  assumes "fst (interactive_mode e c inp) = Inl err"
  shows "\<exists>c' i. fst (run_intent e c' i) = Inl err"
proof -
  obtain r c1 ev where i: "initialize e c = (r, c1, ev)"
    by (cases "initialize e c") auto
  show ?thesis
  proof (cases r)
    case (Inl err')
    with assms i have "fst (run_intent e c Initialize) = Inl err"
      by (simp add: interactive_mode_def)
    then show ?thesis by blast
  next
    case (Inr ok)
    show ?thesis
    proof (cases ok)
      case False
      with assms i Inr show ?thesis by (simp add: interactive_mode_def)
    next
      case True
      with assms i Inr have "fst (interactive_loop e c1 inp) = Inl err"
        by (simp add: interactive_mode_def split_beta)
      from interactive_loop_raises [OF this] show ?thesis .
    qed
  qed
qed

lemma no_raise_returns:
  assumes "\<forall>c i. \<exists>ok. fst (run_intent e c i) = Inr ok"
  shows "interactive_returns e binary inp"
proof (cases "fst (interactive_mode e (MCPClient binary) inp)")
  case (Inl err)
  from interactive_mode_raises [OF this] assms show ?thesis by (metis Inl_Inr_False)
next
  case (Inr u)
  then show ?thesis by (simp add: interactive_returns_def)
qed

subsection \<open>Two sessions that report failures\<close>

lemma run_env_init_only:
  "run_mcp_request env_init_only c method params =
     (Some (if method = ''initialize''
            then JObj [(''jsonrpc'', JStr ''2.0''), (''result'', JObj [])]
            else error_response),
      c\<lparr>request_id := request_id c + 1\<rparr>,
      [RoundTrip (server_argv c) (make_request (request_id c + 1) method params)])"
  by (simp add: run_mcp_request_def next_id_def env_init_only_def make_request_def
        strip_def is_space_def stderr_warning_def)

lemma has_result_error_response: "has_result (Some error_response) = Inr False"
  by (simp add: has_result_def py_contains_result_def error_response_def)

lemma initialize_env_init_only: "fst (initialize env_init_only c) = Inr True"
  by (simp add: initialize_def run_env_init_only has_result_def py_contains_result_def
        the_result_def py_getitem_def py_get_def and_then_def format_value_def)

lemma migration_status_env_init_only: "fst (migration_status env_init_only c) = Inr False"
  by (simp add: migration_status_def run_env_init_only tool_call_def
        show_content_no_result [OF has_result_error_response])

lemma no_raise_env_init_only: "\<forall>c i. \<exists>ok. fst (run_intent env_init_only c i) = Inr ok"
proof (intro allI)
  fix c i
  show "\<exists>ok. fst (run_intent env_init_only c i) = Inr ok"
  proof (cases i)
    case Initialize
    then show ?thesis by (auto simp: initialize_env_init_only)
  next
    case ListTools
    then show ?thesis
      by (auto simp: list_tools_def run_env_init_only has_result_error_response)
  next
    case GetStatus
    then show ?thesis by (auto simp: migration_status_env_init_only)
  next
    case (Apply version)
    then show ?thesis
      by (auto simp: migration_up_def run_env_init_only tool_call_def
            show_content_no_result [OF has_result_error_response])
  next
    case (Rollback version)
    then show ?thesis
      by (auto simp: migration_down_def run_env_init_only tool_call_def
            show_content_no_result [OF has_result_error_response])
  next
    case (CreateMigration name description)
    then show ?thesis
      by (auto simp: create_migration_def run_env_init_only tool_call_def
            show_content_no_result [OF has_result_error_response])
  next
    case ListMigrations
    then show ?thesis
      by (auto simp: list_migrations_def run_env_init_only tool_call_def
            show_content_no_result [OF has_result_error_response])
  qed
qed

lemma loop_body_status_env_init_only:
  "loop_body env_init_only c ''status'' =
     (Inr Next, c\<lparr>request_id := request_id c + 1\<rparr>,
      [Stdout ''Getting migration status...'',
       RoundTrip (server_argv c)
         (make_request (request_id c + 1) ''tools/call''
            (tool_call ''migration_status'' (JObj []))),
       Stdout ''U+274C Failed to get migration status'',
       Stdout []])"
  by (simp add: loop_body_def Let_def strip_def is_space_def after_command_def
        migration_status_def run_env_init_only
        show_content_no_result [OF has_result_error_response] tool_call_def)

text \<open>
  Claim C2 says that the exit status is 1 on every reported failure, also for an
  interactive invocation whose initialize call fails. Two interactive runs with the
  binary on disk: in the first the subprocess cannot be started, initialize returns
  false, and the exit status is 0; in the second initialize returns true, the command
  \<^verbatim>\<open>status\<close> prints its failure line, and the exit status is 0.
\<close>

theorem interactive_init_failure_exits_0:
  "fst (initialize env_unstartable (MCPClient ''./build/mongo-essential'')) = Inr False
   \<and> fst (script env_unstartable env_unstartable ''./build/mongo-essential''
            (Some Interactive) [] []) = 0
   \<and> fst (initialize env_init_only (MCPClient ''./build/mongo-essential'')) = Inr True
   \<and> loop_body env_init_only \<lparr>mcp_binary_path = ''./build/mongo-essential'', request_id = 1\<rparr>
        ''status'' =
       (Inr Next, \<lparr>mcp_binary_path = ''./build/mongo-essential'', request_id = 2\<rparr>,
        [Stdout ''Getting migration status...'',
         RoundTrip [''./build/mongo-essential'', ''mcp'', ''--with-examples'']
           (JObj [(''jsonrpc'', JStr ''2.0''),
                  (''id'', JInt 2),
                  (''method'', JStr ''tools/call''),
                  (''params'',
                   JObj [(''name'', JStr ''migration_status''), (''arguments'', JObj [])])]),
         Stdout ''U+274C Failed to get migration status'',
         Stdout []])
   \<and> fst (script env_init_only env_init_only ''./build/mongo-essential''
            (Some Interactive) [] [Line ''status'', Line ''quit'']) = 0"
proof -
  let ?b = "''./build/mongo-essential''"
  have p1: "path_exists env_unstartable ?b" by (simp add: env_unstartable_def)
  have i1: "fst (initialize env_unstartable (MCPClient ?b)) = Inr False"
    by (simp add: initialize_env_unstartable)
  have s1: "fst (script env_unstartable env_unstartable ?b (Some Interactive) [] []) = 0"
    using init_failed_returns [OF i1]
    by (simp add: script_interactive_status [OF p1] p1)
  have p2: "path_exists env_init_only ?b" by (simp add: env_init_only_def)
  have s2: "fst (script env_init_only env_init_only ?b (Some Interactive) []
                   [Line ''status'', Line ''quit'']) = 0"
    using no_raise_returns [OF no_raise_env_init_only]
    by (simp add: script_interactive_status [OF p2] p2)
  have l2: "loop_body env_init_only \<lparr>mcp_binary_path = ?b, request_id = 1\<rparr> ''status'' =
       (Inr Next, \<lparr>mcp_binary_path = ?b, request_id = 2\<rparr>,
        [Stdout ''Getting migration status...'',
         RoundTrip [?b, ''mcp'', ''--with-examples'']
           (JObj [(''jsonrpc'', JStr ''2.0''),
                  (''id'', JInt 2),
                  (''method'', JStr ''tools/call''),
                  (''params'',
                   JObj [(''name'', JStr ''migration_status''), (''arguments'', JObj [])])]),
         Stdout ''U+274C Failed to get migration status'',
         Stdout []])"
    by (simp add: loop_body_status_env_init_only server_argv_def make_request_def
          tool_call_def params_or_empty_def)
  from i1 s1 initialize_env_init_only [of "MCPClient ?b"] l2 s2 show ?thesis by simp
qed

text \<open>
  Claim C2, amended. Without the binary on disk the exit status is 1, whatever the
  command. With the binary on disk, a one-shot command exits with status 0 when the
  requested operation succeeds and with status 1 otherwise. With the binary on disk, an
  interactive invocation exits with status 0 exactly when both calls of \<^verbatim>\<open>main\<close> return:
  when no exception escapes the first session, the binary is still on disk at the
  second call, and no exception escapes the second session, which reads the input the
  first one left; otherwise the status is 1. What a session reports plays no part: a
  session whose initialize call returns false returns, without reading input, and a
  session returns whenever no method of the client raises.
\<close>

theorem exit_status_by_mode:
  "(\<not> path_exists e binary \<longrightarrow> fst (script e e2 binary command args inp) = 1)
   \<and> (path_exists e binary \<and> cmd \<noteq> Interactive \<longrightarrow>
        fst (script e e2 binary (Some cmd) args inp) =
          (if operation_succeeds e binary cmd args then 0 else 1))
   \<and> (path_exists e binary \<and> (command = None \<or> command = Some Interactive) \<longrightarrow>
        fst (script e e2 binary command args inp) =
          (if interactive_returns e binary inp \<and> path_exists e2 binary
              \<and> interactive_returns e2 binary (remaining_input e binary inp)
           then 0 else 1))
   \<and> (fst (initialize e (MCPClient binary)) = Inr False \<longrightarrow>
        interactive_returns e binary inp \<and> remaining_input e binary inp = inp)
   \<and> ((\<forall>c i. \<exists>ok. fst (run_intent e c i) = Inr ok) \<longrightarrow> interactive_returns e binary inp)"
proof -
  have a: "\<not> path_exists e binary \<longrightarrow> fst (script e e2 binary command args inp) = 1"
    using script_missing_binary by blast
  have b: "path_exists e binary \<and> cmd \<noteq> Interactive \<longrightarrow>
        fst (script e e2 binary (Some cmd) args inp) =
          (if operation_succeeds e binary cmd args then 0 else 1)"
    using one_shot_status by blast
  have c: "path_exists e binary \<and> (command = None \<or> command = Some Interactive) \<longrightarrow>
        fst (script e e2 binary command args inp) =
          (if interactive_returns e binary inp \<and> path_exists e2 binary
              \<and> interactive_returns e2 binary (remaining_input e binary inp)
           then 0 else 1)"
    using script_interactive_status by blast
  have d: "fst (initialize e (MCPClient binary)) = Inr False \<longrightarrow>
        interactive_returns e binary inp \<and> remaining_input e binary inp = inp"
    using init_failed_returns by blast
  have e: "(\<forall>c i. \<exists>ok. fst (run_intent e c i) = Inr ok) \<longrightarrow> interactive_returns e binary inp"
    using no_raise_returns by blast
  show ?thesis
    by (rule conjI [OF a conjI [OF b conjI [OF c conjI [OF d e]]]])
qed

lemma migration_status_env_answering_text:
  "fst (migration_status (env_answering (text_response t)) c) = Inr True"
proof -
  have "content_text (Some (text_response t)) ''No status available'' =
          Inr (Some (CHR 0x0A # t))"
    unfolding text_response_def
    by (rule content_text_first_block
          [where res = "[(''content'', JArr [JObj [(''type'', JStr ''text''), (''text'', JStr t)]])]"
             and blk = "[(''type'', JStr ''text''), (''text'', JStr t)]" and blocks = "[]"])
       simp_all
  then show ?thesis
    by (simp add: migration_status_def run_env_answering show_content_def)
qed

theorem exit_status_by_mode_witness:
  "\<not> path_exists env_absent ''./build/mongo-essential''
   \<and> fst (script env_absent env_absent ''./build/mongo-essential'' (Some Status) [] []) = 1
   \<and> path_exists (env_answering (text_response ''No migrations applied''))
         ''./build/mongo-essential''
   \<and> Status \<noteq> Interactive
   \<and> operation_succeeds (env_answering (text_response ''No migrations applied''))
         ''./build/mongo-essential'' Status []
   \<and> fst (script (env_answering (text_response ''No migrations applied''))
         (env_answering (text_response ''No migrations applied''))
         ''./build/mongo-essential'' (Some Status) [] []) = 0
   \<and> path_exists env_init_only ''./build/mongo-essential''
   \<and> (\<forall>c i. \<exists>ok. fst (run_intent env_init_only c i) = Inr ok)
   \<and> interactive_returns env_init_only ''./build/mongo-essential''
         [Line ''status'', Line ''quit'']
   \<and> fst (script env_init_only env_init_only ''./build/mongo-essential'' (Some Interactive) []
         [Line ''status'', Line ''quit'']) = 0
   \<and> fst (script env_init_only env_absent ''./build/mongo-essential'' (Some Interactive) []
         [Line ''status'', Line ''quit'']) = 1
   \<and> fst (initialize env_unstartable (MCPClient ''./build/mongo-essential'')) = Inr False
   \<and> interactive_returns env_unstartable ''./build/mongo-essential'' [Line ''status'']
   \<and> remaining_input env_unstartable ''./build/mongo-essential'' [Line ''status''] =
       [Line ''status'']"
proof -
  let ?b = "''./build/mongo-essential''"
  let ?e = "env_answering (text_response ''No migrations applied'')"
  let ?inp = "[Line ''status'', Line ''quit'']"
  have h1: "\<not> path_exists env_absent ?b" by (simp add: env_absent_def)
  have h2: "path_exists ?e ?b" by (simp add: env_answering_def)
  have h3: "Status \<noteq> Interactive" by simp
  have h4: "operation_succeeds ?e ?b Status []"
    by (simp add: operation_succeeds_def initialize_env_answering_text
          migration_status_env_answering_text)
  have h5: "path_exists env_init_only ?b" by (simp add: env_init_only_def)
  note h6 = no_raise_env_init_only
  have h7: "fst (initialize env_unstartable (MCPClient ?b)) = Inr False"
    by (simp add: initialize_env_unstartable)
  show ?thesis
    using h1 h2 h3 h4 h5 h6 h7
      exit_status_by_mode [of env_absent ?b env_absent "Some Status" "[]" "[]" Status]
      exit_status_by_mode [of ?e ?b ?e "Some Status" "[]" "[]" Status]
      exit_status_by_mode [of env_init_only ?b env_init_only "Some Interactive" "[]" ?inp Status]
      exit_status_by_mode [of env_init_only ?b env_init_only "Some Interactive" "[]"
        "remaining_input env_init_only ?b ?inp" Status]
      exit_status_by_mode [of env_init_only ?b env_absent "Some Interactive" "[]" ?inp Status]
      exit_status_by_mode [of env_unstartable ?b env_unstartable "Some Interactive" "[]"
        "[Line ''status'']" Status]
    by simp
qed

section \<open>Request ids of a run\<close>

lemma upto_append_int:
  "0 \<le> m \<Longrightarrow> 0 \<le> n \<Longrightarrow> [a + 1 .. a + m] @ [a + m + 1 .. a + m + n] = [a + 1 .. a + m + (n::int)]"
proof (cases "n = 0")
  case True
  then show ?thesis by simp
next
  case False
  assume "0 \<le> m" "0 \<le> n"
  with False have "a + 1 \<le> a + m + 1" "a + m + 1 \<le> a + m + n" by simp_all
  from upto_split1 [OF this] show ?thesis by simp
qed

lemma advances_quiet: "round_trips evs = [] \<Longrightarrow> advances c c evs"
  by (simp add: advances_def request_ids_no_round_trips)

lemma advances_append:
  assumes "advances c c1 ev1" and "advances c1 c2 ev2"
  shows "advances c c2 (ev1 @ ev2)"
proof -
  let ?m = "int (length (round_trips ev1))"
  let ?n = "int (length (round_trips ev2))"
  from assms have c1: "c1 = c\<lparr>request_id := request_id c + ?m\<rparr>"
    and i1: "request_ids ev1 = [request_id c + 1 .. request_id c + ?m]"
    and c2: "c2 = c1\<lparr>request_id := request_id c1 + ?n\<rparr>"
    and i2: "request_ids ev2 = [request_id c1 + 1 .. request_id c1 + ?n]"
    by (simp_all add: advances_def)
  have "request_ids (ev1 @ ev2) = [request_id c + 1 .. request_id c + ?m + ?n]"
    using upto_append_int [of ?m ?n "request_id c"] by (simp add: i1 i2 c1)
  with c1 c2 show ?thesis by (simp add: advances_def add.assoc)
qed

lemma advances_cons_quiet:
  "\<not> is_round_trip ev \<Longrightarrow> advances c c' evs \<Longrightarrow> advances c c' (ev # evs)"
  using advances_append [of c c "[ev]" c' evs] advances_quiet [of "[ev]" c]
  by (simp add: round_trips_def)

lemma advances_snoc_quiet:
  "round_trips evs' = [] \<Longrightarrow> advances c c' evs \<Longrightarrow> advances c c' (evs @ evs')"
  using advances_append [of c c' evs c' evs'] advances_quiet [of evs' c'] by simp

lemma advances_run_intent:
  "advances c (fst (snd (run_intent e c i))) (snd (snd (run_intent e c i)))"
proof -
  obtain r ev where "run_intent e c i = (r, c\<lparr>request_id := request_id c + 1\<rparr>, ev)"
    and rt: "round_trips ev =
         [RoundTrip (server_argv c)
            (make_request (request_id c + 1) (intent_method i) (intent_params i))]"
    using run_intent_shape by blast
  moreover have "request_ids ev = [request_id c + 1]"
    using request_ids_round_trips [of ev] by (simp add: rt)
  ultimately show ?thesis by (simp add: advances_def rt)
qed

lemma advances_after_command:
  "advances c (fst (snd res)) (snd (snd res)) \<Longrightarrow>
   advances c (fst (snd (after_command res))) (snd (snd (after_command res)))"
  by (cases res) (auto simp: after_command_def advances_snoc_quiet split: sum.split)

lemma advances_after_intent:
  "advances c (fst (snd (after_command (run_intent e c i))))
     (snd (snd (after_command (run_intent e c i))))"
  by (rule advances_after_command) (rule advances_run_intent)

lemma advances_loop_body:
  "advances c (fst (snd (loop_body e c line))) (snd (snd (loop_body e c line)))"
  using advances_after_intent [of c e ListTools] advances_after_intent [of c e GetStatus]
    advances_after_intent [of c e "Apply None"] advances_after_intent [of c e "Rollback None"]
    advances_after_intent [of c e ListMigrations]
    advances_after_intent [of c e "Apply (Some v)" for v]
    advances_after_intent [of c e "Rollback (Some v)" for v]
    advances_after_intent [of c e "CreateMigration n d" for n d]
  by (simp add: loop_body_def Let_def advances_quiet print_help_def split: sum.split)

lemma advances_interactive_loop:
  "advances c (fst (snd (interactive_loop e c inp))) (snd (snd (snd (interactive_loop e c inp))))"
proof (induction inp arbitrary: c)
  case Nil
  then show ?case by (simp add: advances_quiet farewell_def)
next
  case (Cons x inp)
  show ?case
  proof (cases x)
    case KeyboardInterrupt
    then show ?thesis by (simp add: advances_quiet farewell_def)
  next
    case (Line l)
    obtain r c1 ev where lb: "loop_body e c l = (r, c1, ev)"
      by (cases "loop_body e c l") auto
    with advances_loop_body [of c e l] have a1: "advances c c1 ev" by simp
    obtain r2 c2 rest2 ev2 where il: "interactive_loop e c1 inp = (r2, c2, rest2, ev2)"
      by (cases "interactive_loop e c1 inp") auto
    with Cons.IH [of c1] have a2: "advances c1 c2 ev2" by simp
    from a1 a2 have a3: "advances c c2 (ev @ ev2)" by (rule advances_append)
    from a1 a3 show ?thesis
      by (simp add: Line lb il advances_cons_quiet split: sum.split loop_ctl.split)
  qed
qed

lemma round_trips_banner [simp]: "round_trips banner = []"
  by (simp add: banner_def)

lemma advances_interactive_mode:
  "advances c (fst (snd (interactive_mode e c inp))) (snd (snd (snd (interactive_mode e c inp))))"
proof -
  obtain r c1 ev where i: "initialize e c = (r, c1, ev)"
    by (cases "initialize e c") auto
  with advances_run_intent [of c e Initialize] have a1: "advances c c1 ev" by simp
  have b: "advances c c (banner)" by (simp add: advances_quiet)
  from advances_append [OF b a1] have a1': "advances c c1 (banner @ ev)" .
  obtain r2 c2 rest2 ev2 where il: "interactive_loop e c1 inp = (r2, c2, rest2, ev2)"
    by (cases "interactive_loop e c1 inp") auto
  with advances_interactive_loop [of c1 e inp] have a2: "advances c1 c2 ev2" by simp
  from advances_append [OF a1' a2] have a3: "advances c c2 (banner @ ev @ ev2)" by simp
  from a1' a3 show ?thesis
    by (simp add: interactive_mode_def i il split: sum.split bool.split)
qed

lemma advances_exit_with:
  "advances c (fst (snd res)) (snd (snd res)) \<Longrightarrow> \<exists>c'. advances c c' (snd (exit_with res))"
  by (cases res) (auto simp: exit_with_def split: sum.split)

lemma advances_run_command: "\<exists>c'. advances c c' (snd (run_command e c cmd args))"
proof (cases "command_intent cmd args")
  case None
  then show ?thesis
    using advances_quiet [of "snd (run_command e c cmd args)" c]
    by (auto simp: run_command_no_intent)
next
  case (Some i)
  then show ?thesis
    using advances_exit_with [OF advances_run_intent [of c e i]]
    by (simp add: run_command_intent)
qed

lemma advances_main:
  "\<exists>c'. advances (MCPClient binary) c' (snd (snd (main e binary command args inp)))"
proof (cases "path_exists e binary")
  case False
  then show ?thesis
    using advances_quiet [of "snd (snd (main e binary command args inp))" "MCPClient binary"]
    by (auto simp: main_def)
next
  case True
  let ?c = "MCPClient binary"
  show ?thesis
  proof (cases "command = None \<or> command = Some Interactive")
    case interactive: True
    obtain r c2 rest ev where im: "interactive_mode e ?c inp = (r, c2, rest, ev)"
      by (cases "interactive_mode e ?c inp") auto
    with advances_interactive_mode [of ?c e inp] have "advances ?c c2 ev" by simp
    moreover have "snd (snd (main e binary command args inp)) = ev"
      using True interactive im by (auto simp: main_def split: sum.split)
    ultimately show ?thesis by auto
  next
    case one_shot: False
    then obtain cmd where cmd: "command = Some cmd" "cmd \<noteq> Interactive" by auto
    show ?thesis
    proof (cases "cmd = Init")
      case True
      have "snd (snd (main e binary command args inp)) = snd (run_command e ?c cmd args)"
        using \<open>path_exists e binary\<close> cmd True by (simp add: main_def Let_def split_beta)
      with advances_run_command [of ?c e cmd args] show ?thesis by simp
    next
      case False
      obtain r c1 ev1 where i: "initialize e ?c = (r, c1, ev1)"
        by (cases "initialize e ?c") auto
      with advances_run_intent [of ?c e Initialize] have a1: "advances ?c c1 ev1" by simp
      obtain c2 where a2: "advances c1 c2 (snd (run_command e c1 cmd args))"
        using advances_run_command by blast
      note a3 = advances_append [OF a1 a2]
      have "main e binary command args inp =
           (case r of
              Inl err \<Rightarrow> (Uncaught err, inp, ev1)
            | Inr False \<Rightarrow> (SysExit 1, inp, ev1)
            | Inr True \<Rightarrow>
                (fst (run_command e c1 cmd args), inp, ev1 @ snd (run_command e c1 cmd args)))"
        unfolding cmd(1)
        by (rule main_one_shot_gated [OF \<open>path_exists e binary\<close> False cmd(2) i])
      with a1 a3 show ?thesis by (auto split: sum.split bool.split)
    qed
  qed
qed

text \<open>
  Claim C3. For every sequence of calls of the transport on a new client, whatever the
  subprocess answers, the ids of the requests are 1, 2, ... up to the number of calls,
  in this order: strictly increasing, without repeats, the first one 1. The requests
  that one call of \<^verbatim>\<open>main\<close> sends, in either mode, are such a sequence: their ids are
  1, 2, ... up to their number.
\<close>

theorem request_ids_increase_from_1:
  "request_ids (snd (run_requests e (MCPClient binary) calls)) = [1 .. int (length calls)]
   \<and> sorted_wrt (<) (request_ids (snd (run_requests e (MCPClient binary) calls)))
   \<and> distinct (request_ids (snd (run_requests e (MCPClient binary) calls)))
   \<and> request_ids (snd (snd (main e binary command args inp))) =
       [1 .. int (length (round_trips (snd (snd (main e binary command args inp)))))]"
proof -
  have "request_ids (snd (run_requests e (MCPClient binary) calls)) = [1 .. int (length calls)]"
    using run_requests_ids [of e "MCPClient binary" calls] by (simp add: MCPClient_def)
  moreover have "request_ids (snd (snd (main e binary command args inp))) =
       [1 .. int (length (round_trips (snd (snd (main e binary command args inp)))))]"
    using advances_main [of binary e command args inp]
    by (auto simp: advances_def MCPClient_def)
  ultimately show ?thesis by (simp add: sorted_wrt_upto)
qed

section \<open>Interactive create with repeated spaces\<close>

text \<open>
  Claim C9 says that a single-word description is never accepted in interactive mode.
  With two spaces after the command word, the line \<^verbatim>\<open>create  add_index Add\<close> is
  accepted: the dispatcher sends one request, with the name \<^verbatim>\<open>add_index\<close> and the
  one-word description \<^verbatim>\<open>Add\<close>, and prints no usage line.
\<close>

theorem interactive_create_double_space_accepts_one_word:
  "loop_body (env_answering (text_response ''Created''))
      (MCPClient ''./build/mongo-essential'') ''create  add_index Add'' =
     (Inr Next, \<lparr>mcp_binary_path = ''./build/mongo-essential'', request_id = 1\<rparr>,
      [Stdout ''Creating migration: add_index'',
       RoundTrip [''./build/mongo-essential'', ''mcp'', ''--with-examples'']
         (JObj [(''jsonrpc'', JStr ''2.0''),
                (''id'', JInt 1),
                (''method'', JStr ''tools/call''),
                (''params'',
                 JObj [(''name'', JStr ''migration_create''),
                       (''arguments'',
                        JObj [(''name'', JStr ''add_index''),
                              (''description'', JStr ''Add'')])])]),
       Stdout (CHR 0x0A # ''Created''),
       Stdout []])"
proof -
  have body: "loop_body (env_answering (text_response ''Created''))
                (MCPClient ''./build/mongo-essential'') ''create  add_index Add'' =
              after_command
                (create_migration (env_answering (text_response ''Created''))
                   (MCPClient ''./build/mongo-essential'') ''add_index'' ''Add'')"
    by (simp add: loop_body_def strip_def is_space_def numeral_2_eq_2)
  have "content_text (Some (text_response ''Created'')) ''Migration created'' =
          Inr (Some (CHR 0x0A # ''Created''))"
    unfolding text_response_def
    by (rule content_text_first_block
          [where res = "[(''content'', JArr [JObj [(''type'', JStr ''text''),
                           (''text'', JStr ''Created'')]])]"
             and blk = "[(''type'', JStr ''text''), (''text'', JStr ''Created'')]"
             and blocks = "[]"])
       simp_all
  then show ?thesis
    unfolding body
    by (simp add: after_command_def create_migration_def run_env_answering show_content_def
          MCPClient_def server_argv_def make_request_def tool_call_def params_or_empty_def)
qed

end
